theory Spec2Isabelle
  imports Main
begin

section \<open>The chat sessions proxy of the extension host\<close>

text \<open>
  A model of \<^verbatim>\<open>src/vs/workbench/api/common/extHostChatSessions.ts\<close>: the class
  \<^verbatim>\<open>ExtHostChatSessions\<close> with its maps, its counters and its methods, and the helper
  class \<^verbatim>\<open>ExtHostChatSession\<close>.
  Every method is a function from the world before the call to a result and the world
  after it. The world holds the fields of the object, an allocator for the identities of
  the objects that the code creates with \<^verbatim>\<open>new\<close>, and the trace of the calls that the
  code makes on its collaborators (the log service, the RPC proxy, the providers and
  callbacks of the extension, disposable stores and cancellation token sources).
\<close>

subsection \<open>Numbers in template literals\<close>

text \<open>
  Handles are JavaScript numbers. The counters start at 0 and go up in steps of one, and
  such numbers are exact as long as a counter stays below \<open>2 ^ 53\<close>; they are modelled as
  integers. A template literal such as \<^verbatim>\<open>`${handle}_${id}`\<close> renders the number in
  decimal, with a leading minus sign for a negative one.
\<close>

definition digit_char :: "nat \<Rightarrow> char" where
  "digit_char d = char_of (48 + d)"

function digits_of_nat :: "nat \<Rightarrow> string" where
  "digits_of_nat n =
     (if n < 10 then [digit_char n]
      else digits_of_nat (n div 10) @ [digit_char (n mod 10)])"
  by pat_completeness auto
termination
  by (relation "measure (\<lambda>n. n)") auto

declare digits_of_nat.simps [simp del]

definition number_to_string :: "int \<Rightarrow> string" where
  "number_to_string i =
     (if i < 0 then CHR ''-'' # digits_of_nat (nat (- i)) else digits_of_nat (nat i))"

subsection \<open>Values of the extension API and of the RPC protocol\<close>

text \<open>
  An error is the \<^verbatim>\<open>Error\<close> object that a \<^verbatim>\<open>throw\<close> raises or a promise is rejected
  with, known by its message. A result of type \<open>error + 'a\<close> is \<open>Inl\<close> when the call throws
  (for an \<^verbatim>\<open>async\<close> method: when the promise it returns is rejected).
\<close>

datatype error = Error string

text \<open>
  Objects that the code refers to but does not look into (disposable stores, token
  sources, subscriptions) are known by their identity.
\<close>

type_synonym object_id = nat

text \<open>
  A cancellation token is either one that the caller hands in, or the \<^verbatim>\<open>token\<close> of a
  cancellation token source.
\<close>

datatype cancellation_token = CancellationToken nat | Token_of object_id

type_synonym extension_description = string

type_synonym icon_path = string

text \<open>\<^verbatim>\<open>vscode.ChatSessionItem\<close>, and \<^verbatim>\<open>IChatSessionItem\<close>, which is sent to the main thread.\<close>

record chat_session_item =
  item_id :: string
  item_label :: string
  item_iconPath :: "icon_path option"

record chat_session_item_dto =
  dto_id :: string
  dto_label :: string
  dto_iconPath :: "icon_path option"

text \<open>\<^verbatim>\<open>IChatAgentRequest\<close>, with the fields that this file reads or writes.\<close>

datatype chat_agent_location = Panel

record chat_agent_request =
  req_sessionId :: string
  req_requestId :: string
  req_agentId :: string
  req_message :: string
  req_variables :: "string list"
  req_location :: chat_agent_location
  req_userSelectedModelId :: "string option"

text \<open>
  The \<^verbatim>\<open>IChatAgentProgressShape\<close> object that \<^verbatim>\<open>$provideChatSessionContent\<close> builds: two
  closures over \<^verbatim>\<open>handle\<close> and \<^verbatim>\<open>id\<close>.
\<close>

record progress_proxy =
  proxy_handle :: int
  proxy_id :: string

text \<open>
  \<^verbatim>\<open>ChatAgentResponseStream\<close> is defined in another file; a stream is known by the
  arguments of its constructor (the commands converter is the same object for all).
\<close>

record chat_agent_response_stream =
  stream_extension :: extension_description
  stream_request :: chat_agent_request
  stream_proxy :: progress_proxy
  stream_disposables :: object_id

type_synonym chat_response_part = string

type_synonym chat_progress_dto = string

text \<open>A turn of a history: a request turn with its prompt, or a response turn with its parts.\<close>

datatype chat_turn =
    ChatRequestTurn string
  | ChatResponseTurn2 "chat_response_part list"

datatype chat_session_history_item_dto =
    Request_item string
  | Response_item "chat_progress_dto list"

record chat_session_dto =
  session_dto_id :: string
  hasActiveResponseCallback :: bool
  hasRequestHandler :: bool
  session_dto_history :: "chat_session_history_item_dto list"

type_synonym language_model = string

text \<open>
  \<^verbatim>\<open>vscode.ChatRequest\<close>, the result of \<^verbatim>\<open>typeConvert.ChatAgentRequest.to\<close>, which is
  defined in another file: known by the arguments of the conversion that vary.
\<close>

record chat_request =
  cr_request :: chat_agent_request
  cr_model :: language_model
  cr_extension :: extension_description

text \<open>
  \<^verbatim>\<open>vscode.ChatSession\<close>. Both callbacks are optional. The active response callback is
  called without \<^verbatim>\<open>await\<close>: \<open>Inl\<close> is a synchronous throw, \<open>Inr\<close> a thenable. The request
  handler is awaited: \<open>Inl\<close> is a throw or a rejection.
\<close>

record chat_session =
  history :: "chat_turn list"
  activeResponseCallback ::
    "(chat_agent_response_stream \<Rightarrow> cancellation_token \<Rightarrow> error + unit) option"
  requestHandler ::
    "(chat_request \<Rightarrow> string list \<Rightarrow> chat_agent_response_stream
       \<Rightarrow> cancellation_token \<Rightarrow> error + unit) option"

text \<open>
  The providers of an extension. \<^verbatim>\<open>provideChatSessionItems\<close> may throw, and may return
  \<^verbatim>\<open>undefined\<close> or \<^verbatim>\<open>null\<close> (\<open>None\<close>) instead of an array. The event is optional.
\<close>

type_synonym vscode_event = nat

record chat_session_item_provider =
  provideChatSessionItems :: "cancellation_token \<Rightarrow> error + chat_session_item list option"
  onDidChangeChatSessionItems :: "vscode_event option"

record chat_session_content_provider =
  provideChatSessionContent :: "string \<Rightarrow> cancellation_token \<Rightarrow> error + chat_session"

text \<open>The language models service, of which \<^verbatim>\<open>getModelForRequest\<close> calls two methods.\<close>

record language_models =
  getLanguageModelByIdentifier :: "extension_description \<Rightarrow> string \<Rightarrow> language_model option"
  getDefaultLanguageModel :: "extension_description \<Rightarrow> language_model option"

subsection \<open>The classes of the file\<close>

text \<open>
  \<^verbatim>\<open>ExtHostChatSession\<close>: the constructor stores its arguments and builds the stream of
  the active response from the request it is given.
\<close>

record ext_host_chat_session =
  session :: chat_session
  extension :: extension_description
  proxy :: progress_proxy
  sessionDisposables :: object_id
  stream :: chat_agent_response_stream

definition new_ExtHostChatSession ::
  "chat_session \<Rightarrow> extension_description \<Rightarrow> chat_agent_request \<Rightarrow> progress_proxy
     \<Rightarrow> object_id \<Rightarrow> ext_host_chat_session" where
  "new_ExtHostChatSession s ext request p disposables =
     \<lparr>session = s, extension = ext, proxy = p, sessionDisposables = disposables,
      stream = \<lparr>stream_extension = ext, stream_request = request, stream_proxy = p,
                stream_disposables = disposables\<rparr>\<rparr>"

definition activeResponseStream :: "ext_host_chat_session \<Rightarrow> chat_agent_response_stream" where
  "activeResponseStream this = stream this"

definition getActiveRequestStream ::
  "ext_host_chat_session \<Rightarrow> chat_agent_request \<Rightarrow> chat_agent_response_stream" where
  "getActiveRequestStream this request =
     \<lparr>stream_extension = extension this, stream_request = request, stream_proxy = proxy this,
      stream_disposables = sessionDisposables this\<rparr>"

text \<open>The values of the three maps of \<^verbatim>\<open>ExtHostChatSessions\<close>.\<close>

record item_provider_entry =
  item_provider :: chat_session_item_provider
  item_extension :: extension_description
  item_disposable :: object_id

record content_provider_entry =
  content_provider :: chat_session_content_provider
  content_extension :: extension_description
  content_disposable :: object_id

record session_entry =
  sessionObj :: ext_host_chat_session
  disposeCts :: object_id

text \<open>The calls of \<^verbatim>\<open>MainThreadChatSessionsShape\<close> that the file makes on its RPC proxy.\<close>

datatype proxy_call =
    Proxy_registerChatSessionItemProvider int string
  | Proxy_onDidChangeChatSessionItems string
  | Proxy_unregisterChatSessionItemProvider int
  | Proxy_registerChatSessionContentProvider int string
  | Proxy_unregisterChatSessionContentProvider int
  | Proxy_handleProgressChunk int string string "chat_progress_dto list"
  | Proxy_handleAnchorResolve int string string string string
  | Proxy_handleProgressComplete int string string
  | Proxy_showChatSession string string "nat option"

text \<open>The calls that the code makes on its collaborators, in the order it makes them.\<close>

datatype event =
    Log_error string
  | Log_warn string
  | Proxy proxy_call
  | New_DisposableStore object_id
  | New_CancellationTokenSource object_id
  | DisposableStore_add object_id object_id
  | DisposableStore_dispose object_id
  | CancellationTokenSource_cancel object_id
  | Subscribe vscode_event string object_id
  | Call_provideChatSessionItems chat_session_item_provider cancellation_token
  | Call_provideChatSessionContent chat_session_content_provider string cancellation_token
  | Call_activeResponseCallback chat_session chat_agent_response_stream cancellation_token
  | Call_requestHandler chat_session chat_request "string list" chat_agent_response_stream
      cancellation_token

text \<open>
  The fields of \<^verbatim>\<open>ExtHostChatSessions\<close> (\<^verbatim>\<open>_sessionHandlePool\<close> is static), the next
  free object identity, and the trace.
\<close>

record world =
  chatSessionItemProviders :: "int \<rightharpoonup> item_provider_entry"
  chatSessionContentProviders :: "int \<rightharpoonup> content_provider_entry"
  nextChatSessionItemProviderHandle :: int
  nextChatSessionContentProviderHandle :: int
  sessionMap :: "string \<rightharpoonup> chat_session_item"
  sessionHandlePool :: int
  extHostChatSessions :: "string \<rightharpoonup> session_entry"
  next_object :: object_id
  trace :: "event list"

definition initial_world :: world where
  "initial_world =
     \<lparr>chatSessionItemProviders = Map.empty, chatSessionContentProviders = Map.empty,
      nextChatSessionItemProviderHandle = 0, nextChatSessionContentProviderHandle = 0,
      sessionMap = Map.empty, sessionHandlePool = 0, extHostChatSessions = Map.empty,
      next_object = 0, trace = []\<rparr>"

subsection \<open>Collaborators that are defined in other files\<close>

definition emit :: "event \<Rightarrow> world \<Rightarrow> world" where
  "emit e w = w\<lparr>trace := trace w @ [e]\<rparr>"

text \<open>
  Modelled from the spec: \<^verbatim>\<open>DisposableStore\<close> and \<^verbatim>\<open>CancellationTokenSource\<close> belong to
  the host-defined disposable and cancellation framework, which is not among the sources.
  \<^verbatim>\<open>new\<close> gives an object with an identity that no earlier object has; every call on
  such an object is recorded in the trace, and what the object does when called is left
  open. \<^verbatim>\<open>DisposableStore.add\<close> returns its argument.
\<close>

definition new_DisposableStore :: "world \<Rightarrow> object_id \<times> world" where
  "new_DisposableStore w =
     (next_object w,
      emit (New_DisposableStore (next_object w)) (w\<lparr>next_object := Suc (next_object w)\<rparr>))"

definition new_CancellationTokenSource :: "world \<Rightarrow> object_id \<times> world" where
  "new_CancellationTokenSource w =
     (next_object w,
      emit (New_CancellationTokenSource (next_object w))
        (w\<lparr>next_object := Suc (next_object w)\<rparr>))"

definition DisposableStore_add_call :: "object_id \<Rightarrow> object_id \<Rightarrow> world \<Rightarrow> object_id \<times> world" where
  "DisposableStore_add_call store x w = (x, emit (DisposableStore_add store x) w)"

definition DisposableStore_dispose_call :: "object_id \<Rightarrow> world \<Rightarrow> world" where
  "DisposableStore_dispose_call store w = emit (DisposableStore_dispose store) w"

definition CancellationTokenSource_cancel_call :: "object_id \<Rightarrow> world \<Rightarrow> world" where
  "CancellationTokenSource_cancel_call cts w = emit (CancellationTokenSource_cancel cts) w"

text \<open>
  Modelled from the spec: calling an event of the extension with a listener gives a
  disposable, the subscription, an object of its own. The listener that
  \<^verbatim>\<open>registerChatSessionItemProvider\<close> subscribes is a closure over \<^verbatim>\<open>chatSessionType\<close>.
\<close>

definition subscribe :: "vscode_event \<Rightarrow> string \<Rightarrow> world \<Rightarrow> object_id \<times> world" where
  "subscribe ev chatSessionType w =
     (next_object w,
      emit (Subscribe ev chatSessionType (next_object w))
        (w\<lparr>next_object := Suc (next_object w)\<rparr>))"

text \<open>
  Modelled from the spec: \<^verbatim>\<open>coalesce\<close> of \<^verbatim>\<open>base/common/arrays.js\<close> is not among the
  sources; it keeps the elements of an array that are defined, in their order.
\<close>

fun coalesce :: "'a option list \<Rightarrow> 'a list" where
  "coalesce [] = []"
| "coalesce (None # xs) = coalesce xs"
| "coalesce (Some x # xs) = x # coalesce xs"

subsection \<open>Registering providers\<close>

text \<open>
  The disposable that a registration returns is a closure over \<^verbatim>\<open>handle\<close> and
  \<^verbatim>\<open>disposables\<close>; the model returns the two captured values.
\<close>

record registration =
  reg_handle :: int
  reg_disposables :: object_id

definition onDidChangeChatSessionItems_listener :: "string \<Rightarrow> world \<Rightarrow> world" where
  "onDidChangeChatSessionItems_listener chatSessionType w =
     emit (Proxy (Proxy_onDidChangeChatSessionItems chatSessionType)) w"

definition registerChatSessionItemProvider ::
  "extension_description \<Rightarrow> string \<Rightarrow> chat_session_item_provider \<Rightarrow> world
     \<Rightarrow> registration \<times> world" where
  "registerChatSessionItemProvider ext chatSessionType provider w =
     (let handle = nextChatSessionItemProviderHandle w;
          w1 = w\<lparr>nextChatSessionItemProviderHandle := handle + 1\<rparr>;
          (disposables, w2) = new_DisposableStore w1;
          w3 = w2\<lparr>chatSessionItemProviders := (chatSessionItemProviders w2)(handle \<mapsto>
                 \<lparr>item_provider = provider, item_extension = ext,
                  item_disposable = disposables\<rparr>)\<rparr>;
          w4 = emit (Proxy (Proxy_registerChatSessionItemProvider handle chatSessionType)) w3;
          w5 = (case onDidChangeChatSessionItems provider of
                  None \<Rightarrow> w4
                | Some ev \<Rightarrow>
                    (let (subscription, w') = subscribe ev chatSessionType w4
                     in snd (DisposableStore_add_call disposables subscription w')))
      in (\<lparr>reg_handle = handle, reg_disposables = disposables\<rparr>, w5))"

definition dispose_ChatSessionItemProvider :: "registration \<Rightarrow> world \<Rightarrow> world" where
  "dispose_ChatSessionItemProvider reg w =
     (let w1 = w\<lparr>chatSessionItemProviders :=
                  (chatSessionItemProviders w)(reg_handle reg := None)\<rparr>;
          w2 = DisposableStore_dispose_call (reg_disposables reg) w1
      in emit (Proxy (Proxy_unregisterChatSessionItemProvider (reg_handle reg))) w2)"

definition registerChatSessionContentProvider ::
  "extension_description \<Rightarrow> string \<Rightarrow> chat_session_content_provider \<Rightarrow> world
     \<Rightarrow> registration \<times> world" where
  "registerChatSessionContentProvider ext chatSessionType provider w =
     (let handle = nextChatSessionContentProviderHandle w;
          w1 = w\<lparr>nextChatSessionContentProviderHandle := handle + 1\<rparr>;
          (disposables, w2) = new_DisposableStore w1;
          w3 = w2\<lparr>chatSessionContentProviders := (chatSessionContentProviders w2)(handle \<mapsto>
                 \<lparr>content_provider = provider, content_extension = ext,
                  content_disposable = disposables\<rparr>)\<rparr>;
          w4 = emit (Proxy (Proxy_registerChatSessionContentProvider handle chatSessionType)) w3
      in (\<lparr>reg_handle = handle, reg_disposables = disposables\<rparr>, w4))"

text \<open>
  The callback that \<^verbatim>\<open>registerChatSessionContentProvider\<close> wraps in an
  \<^verbatim>\<open>extHostTypes.Disposable\<close>.
\<close>

definition dispose_ChatSessionContentProvider :: "registration \<Rightarrow> world \<Rightarrow> world" where
  "dispose_ChatSessionContentProvider reg w =
     (let w1 = w\<lparr>chatSessionContentProviders :=
                  (chatSessionContentProviders w)(reg_handle reg := None)\<rparr>;
          w2 = DisposableStore_dispose_call (reg_disposables reg) w1
      in emit (Proxy (Proxy_unregisterChatSessionContentProvider (reg_handle reg))) w2)"

subsection \<open>\<^verbatim>\<open>$provideChatSessionItems\<close>\<close>

text \<open>
  The loop over the sessions of the provider; \<open>response\<close> is the array built so far. An
  id is falsy when it is the empty string.
\<close>

fun provideChatSessionItems_loop ::
  "chat_session_item list \<Rightarrow> chat_session_item_dto list \<Rightarrow> world
     \<Rightarrow> chat_session_item_dto list \<times> world" where
  "provideChatSessionItems_loop [] response w = (response, w)"
| "provideChatSessionItems_loop (sessionContent # sessions) response w =
     (if item_id sessionContent \<noteq> []
      then provideChatSessionItems_loop sessions
             (response @ [\<lparr>dto_id = item_id sessionContent,
                            dto_label = item_label sessionContent,
                            dto_iconPath = item_iconPath sessionContent\<rparr>])
             (w\<lparr>sessionMap := (sessionMap w)(item_id sessionContent \<mapsto> sessionContent)\<rparr>)
      else provideChatSessionItems_loop sessions response w)"

text \<open>
  What the method does once the promise of the provider is resolved, in the world of
  that moment.
\<close>

definition provideChatSessionItems_resume ::
  "chat_session_item list option \<Rightarrow> world \<Rightarrow> chat_session_item_dto list \<times> world" where
  "provideChatSessionItems_resume sessions w =
     (case sessions of
        None \<Rightarrow> ([], w)
      | Some ss \<Rightarrow> provideChatSessionItems_loop ss [] w)"

text \<open>The method with nothing else running between the call of the provider and its answer.\<close>

definition dollar_provideChatSessionItems ::
  "int \<Rightarrow> cancellation_token \<Rightarrow> world \<Rightarrow> (error + chat_session_item_dto list) \<times> world" where
  "dollar_provideChatSessionItems handle token w =
     (case chatSessionItemProviders w handle of
        None \<Rightarrow>
          (Inr [],
           emit (Log_error (''No provider registered for handle '' @ number_to_string handle)) w)
      | Some entry \<Rightarrow>
          (let w1 = emit (Call_provideChatSessionItems (item_provider entry) token) w
           in case provideChatSessionItems (item_provider entry) token of
                Inl e \<Rightarrow> (Inl e, w1)
              | Inr sessions \<Rightarrow>
                  (let (response, w2) = provideChatSessionItems_resume sessions w1
                   in (Inr response, w2))))"

subsection \<open>\<^verbatim>\<open>$provideChatSessionContent\<close>\<close>

text \<open>The two closures of the progress object, which the stream calls.\<close>

definition handleProgressChunk ::
  "progress_proxy \<Rightarrow> string \<Rightarrow> chat_progress_dto list \<Rightarrow> world \<Rightarrow> world" where
  "handleProgressChunk p requestId chunks w =
     emit (Proxy (Proxy_handleProgressChunk (proxy_handle p) (proxy_id p) requestId chunks)) w"

definition handleAnchorResolve ::
  "progress_proxy \<Rightarrow> string \<Rightarrow> string \<Rightarrow> string \<Rightarrow> world \<Rightarrow> world" where
  "handleAnchorResolve p requestId requestHandle anchor w =
     emit (Proxy (Proxy_handleAnchorResolve (proxy_handle p) (proxy_id p) requestId
       requestHandle anchor)) w"

text \<open>
  The \<^verbatim>\<open>finally\<close> callback of the active response, which runs when the thenable of the
  callback is settled.
\<close>

definition activeResponse_finally :: "int \<Rightarrow> string \<Rightarrow> world \<Rightarrow> world" where
  "activeResponse_finally handle id' w =
     emit (Proxy (Proxy_handleProgressComplete handle id' ''ongoing'')) w"

text \<open>
  What the method does once the promise of the provider is resolved with \<open>session'\<close>, in
  the world of that moment; \<open>provider\<close> is the entry that the method found before it
  called the provider. \<^verbatim>\<open>typeConvert.ChatResponsePart.from\<close> is defined in another file
  and is a parameter: it gets a response part and the session's store, and gives a DTO
  or \<^verbatim>\<open>undefined\<close>; what it may add to the store is not recorded.
\<close>

definition provideChatSessionContent_resume ::
  "(chat_response_part \<Rightarrow> object_id \<Rightarrow> chat_progress_dto option) \<Rightarrow> int \<Rightarrow> string
     \<Rightarrow> content_provider_entry \<Rightarrow> chat_session \<Rightarrow> world
     \<Rightarrow> (error + chat_session_dto) \<times> world" where
  "provideChatSessionContent_resume ChatResponsePart_from handle id' provider session' w =
     (let (sessionDisposables', w1) = new_DisposableStore w;
          sessionId = sessionHandlePool w1;
          w2 = w1\<lparr>sessionHandlePool := sessionId + 1\<rparr>;
          chatSession = new_ExtHostChatSession session' (content_extension provider)
            \<lparr>req_sessionId = id' @ ''.'' @ number_to_string sessionId,
             req_requestId = ''ongoing'',
             req_agentId = id',
             req_message = [],
             req_variables = [],
             req_location = Panel,
             req_userSelectedModelId = None\<rparr>
            \<lparr>proxy_handle = handle, proxy_id = id'\<rparr>
            sessionDisposables';
          (cts, w3) = new_CancellationTokenSource w2;
          (disposeCts', w4) = DisposableStore_add_call sessionDisposables' cts w3;
          w5 = w4\<lparr>extHostChatSessions := (extHostChatSessions w4)
                 (number_to_string handle @ ''_'' @ id' \<mapsto>
                    \<lparr>sessionObj = chatSession, disposeCts = disposeCts'\<rparr>)\<rparr>;
          dto = \<lparr>session_dto_id = number_to_string sessionId,
                 hasActiveResponseCallback = (activeResponseCallback session' \<noteq> None),
                 hasRequestHandler = (requestHandler session' \<noteq> None),
                 session_dto_history = map (\<lambda>turn.
                   case turn of
                     ChatRequestTurn prompt \<Rightarrow> Request_item prompt
                   | ChatResponseTurn2 response \<Rightarrow>
                       Response_item (coalesce
                         (map (\<lambda>r. ChatResponsePart_from r sessionDisposables') response)))
                   (history session')\<rparr>
      in case activeResponseCallback session' of
           None \<Rightarrow> (Inr dto, w5)
         | Some callback \<Rightarrow>
             (let w6 = emit (Call_activeResponseCallback session'
                         (activeResponseStream chatSession) (Token_of disposeCts')) w5
              in case callback (activeResponseStream chatSession) (Token_of disposeCts') of
                   Inl e \<Rightarrow> (Inl e, w6)
                 | Inr u \<Rightarrow> (Inr dto, w6)))"

text \<open>The method with nothing else running between the call of the provider and its answer.\<close>

definition dollar_provideChatSessionContent ::
  "(chat_response_part \<Rightarrow> object_id \<Rightarrow> chat_progress_dto option) \<Rightarrow> int \<Rightarrow> string
     \<Rightarrow> cancellation_token \<Rightarrow> world \<Rightarrow> (error + chat_session_dto) \<times> world" where
  "dollar_provideChatSessionContent ChatResponsePart_from handle id' token w =
     (case chatSessionContentProviders w handle of
        None \<Rightarrow> (Inl (Error (''No provider for handle '' @ number_to_string handle)), w)
      | Some provider \<Rightarrow>
          (let w1 = emit (Call_provideChatSessionContent (content_provider provider) id' token) w
           in case provideChatSessionContent (content_provider provider) id' token of
                Inl e \<Rightarrow> (Inl e, w1)
              | Inr session' \<Rightarrow>
                  provideChatSessionContent_resume ChatResponsePart_from handle id' provider
                    session' w1))"

subsection \<open>\<^verbatim>\<open>$disposeChatSessionContent\<close>\<close>

definition dollar_disposeChatSessionContent :: "int \<Rightarrow> string \<Rightarrow> world \<Rightarrow> world" where
  "dollar_disposeChatSessionContent providerHandle sessionId w =
     (let key = number_to_string providerHandle @ ''_'' @ sessionId
      in case extHostChatSessions w key of
           None \<Rightarrow> emit (Log_warn (''No chat session found for ID: '' @ key)) w
         | Some entry \<Rightarrow>
             (let w1 = CancellationTokenSource_cancel_call (disposeCts entry) w;
                  w2 = DisposableStore_dispose_call (sessionDisposables (sessionObj entry)) w1
              in w2\<lparr>extHostChatSessions := (extHostChatSessions w2)(key := None)\<rparr>))"

text \<open>
  The same method, with what the two objects do when they are called as parameters.
  \<^verbatim>\<open>cancel()\<close> runs the listeners of the token, and \<^verbatim>\<open>dispose()\<close> disposes what the store
  holds. That is code of other files and of the extension, which may read this object and
  call its methods; so each of the two is any function of the world, and it runs in the
  world in which the call is made, after the call is recorded. The entry is the one that
  the method has read at its start, and \<^verbatim>\<open>delete(key)\<close> works on the map as it is when the
  two calls have returned. The method above is the case in which neither object does
  anything to the world.
\<close>

definition disposeChatSessionContent_calling ::
  "(object_id \<Rightarrow> world \<Rightarrow> world) \<Rightarrow> (object_id \<Rightarrow> world \<Rightarrow> world) \<Rightarrow> int \<Rightarrow> string
     \<Rightarrow> world \<Rightarrow> world" where
  "disposeChatSessionContent_calling cancel dispose providerHandle sessionId w =
     (let key = number_to_string providerHandle @ ''_'' @ sessionId
      in case extHostChatSessions w key of
           None \<Rightarrow> emit (Log_warn (''No chat session found for ID: '' @ key)) w
         | Some entry \<Rightarrow>
             (let w1 = cancel (disposeCts entry)
                    (CancellationTokenSource_cancel_call (disposeCts entry) w);
                  w2 = dispose (sessionDisposables (sessionObj entry))
                    (DisposableStore_dispose_call (sessionDisposables (sessionObj entry)) w1)
              in w2\<lparr>extHostChatSessions := (extHostChatSessions w2)(key := None)\<rparr>))"

text \<open>
  A listener of a token, or a disposable of a store, that looks at the session map when
  it runs and logs whether the key is in it.
\<close>

definition reports_session :: "string \<Rightarrow> object_id \<Rightarrow> world \<Rightarrow> world" where
  "reports_session key obj w =
     emit (Log_warn (if extHostChatSessions w key = None then ''absent'' else ''present'')) w"

text \<open>
  A listener of a token, or a disposable of a store, that puts an entry into the session
  map under a key when it runs.
\<close>

definition restores_session :: "string \<Rightarrow> session_entry \<Rightarrow> object_id \<Rightarrow> world \<Rightarrow> world" where
  "restores_session key entry obj w =
     w\<lparr>extHostChatSessions := (extHostChatSessions w)(key \<mapsto> entry)\<rparr>"

subsection \<open>\<^verbatim>\<open>$invokeChatSessionRequestHandler\<close>\<close>

text \<open>A model id is falsy when it is absent or the empty string.\<close>

definition getModelForRequest ::
  "language_models \<Rightarrow> chat_agent_request \<Rightarrow> extension_description \<Rightarrow> error + language_model" where
  "getModelForRequest languageModels request ext =
     (let model =
            (case req_userSelectedModelId request of
               None \<Rightarrow> None
             | Some modelId \<Rightarrow>
                 if modelId \<noteq> [] then getLanguageModelByIdentifier languageModels ext modelId
                 else None)
      in case model of
           Some m \<Rightarrow> Inr m
         | None \<Rightarrow>
             (case getDefaultLanguageModel languageModels ext of
                Some m \<Rightarrow> Inr m
              | None \<Rightarrow> Inl (Error ''Language model unavailable'')))"

text \<open>The result \<^verbatim>\<open>{}\<close> of the method is the unit value.\<close>

definition dollar_invokeChatSessionRequestHandler ::
  "language_models \<Rightarrow> int \<Rightarrow> string \<Rightarrow> chat_agent_request \<Rightarrow> string list
     \<Rightarrow> cancellation_token \<Rightarrow> world \<Rightarrow> (error + unit) \<times> world" where
  "dollar_invokeChatSessionRequestHandler languageModels handle id' request history' token w =
     (case extHostChatSessions w (number_to_string handle @ ''_'' @ id') of
        None \<Rightarrow> (Inr (), w)
      | Some entry \<Rightarrow>
          (case requestHandler (session (sessionObj entry)) of
             None \<Rightarrow> (Inr (), w)
           | Some handler \<Rightarrow>
               (case getModelForRequest languageModels request (extension (sessionObj entry)) of
                  Inl e \<Rightarrow> (Inl e, w)
                | Inr model \<Rightarrow>
                    (let chatRequest = \<lparr>cr_request = request, cr_model = model,
                                        cr_extension = extension (sessionObj entry)\<rparr>;
                         stream' = getActiveRequestStream (sessionObj entry) request;
                         w1 = emit (Call_requestHandler (session (sessionObj entry)) chatRequest
                                history' stream' token) w
                     in case handler chatRequest history' stream' token of
                          Inl e \<Rightarrow> (Inl e, w1)
                        | Inr u \<Rightarrow> (Inr (), w1)))))"

subsection \<open>\<^verbatim>\<open>showChatSession\<close> and the argument processor\<close>

text \<open>
  \<^verbatim>\<open>typeConvert.ViewColumn.from\<close> is defined in another file; the method gets the
  converted view column.
\<close>

definition showChatSession :: "string \<Rightarrow> string \<Rightarrow> nat option \<Rightarrow> world \<Rightarrow> world" where
  "showChatSession chatSessionType sessionId viewColumn w =
     emit (Proxy (Proxy_showChatSession chatSessionType sessionId viewColumn)) w"

text \<open>
  The argument processor that the constructor registers with the commands service. An
  argument is either marshalled as a chat session context and has an id, or it is
  anything else; the processor gives back the item stored under the id, or the argument.
\<close>

datatype argument = ChatSessionContext string | Other_argument string

datatype processed_argument = Session_item chat_session_item | Same_argument argument

definition processArgument :: "argument \<Rightarrow> world \<Rightarrow> processed_argument \<times> world" where
  "processArgument arg w =
     (case arg of
        ChatSessionContext id' \<Rightarrow>
          (case sessionMap w id' of
             Some sessionContent \<Rightarrow> (Session_item sessionContent, w)
           | None \<Rightarrow>
               (Same_argument arg, emit (Log_warn (''No chat session found for ID: '' @ id')) w))
      | Other_argument x \<Rightarrow> (Same_argument arg, w))"

subsection \<open>The runs of the object\<close>

text \<open>
  One step is one call of a method or of a closure that the object has handed out. The
  methods that await a provider are steps as a whole, and their second halves are steps
  of their own, so that a run may put other calls between the call of a provider and the
  moment its promise is resolved; the call that a suspended method has made on a
  collaborator is then a step by itself.
\<close>

inductive step :: "world \<Rightarrow> world \<Rightarrow> bool" where
  register_item: "step w (snd (registerChatSessionItemProvider ext chatSessionType p w))"
| dispose_item: "step w (dispose_ChatSessionItemProvider reg w)"
| items_changed: "step w (onDidChangeChatSessionItems_listener chatSessionType w)"
| register_content: "step w (snd (registerChatSessionContentProvider ext chatSessionType q w))"
| dispose_content: "step w (dispose_ChatSessionContentProvider reg w)"
| provide_items: "step w (snd (dollar_provideChatSessionItems handle token w))"
| provide_items_resume: "step w (snd (provideChatSessionItems_resume sessions w))"
| provide_content: "step w (snd (dollar_provideChatSessionContent from_part handle id' token w))"
| provide_content_resume:
    "step w (snd (provideChatSessionContent_resume from_part handle id' entry s w))"
| dispose_session: "step w (dollar_disposeChatSessionContent handle id' w)"
| invoke_handler:
    "step w (snd (dollar_invokeChatSessionRequestHandler lm handle id' request h token w))"
| progress_chunk: "step w (handleProgressChunk pp requestId chunks w)"
| anchor_resolve: "step w (handleAnchorResolve pp requestId requestHandle anchor w)"
| response_settled: "step w (activeResponse_finally handle id' w)"
| show_session: "step w (showChatSession chatSessionType sessionId viewColumn w)"
| process_argument: "step w (snd (processArgument arg w))"
| collaborator_call: "step w (emit e w)"

definition reachable :: "world \<Rightarrow> bool" where
  "reachable w \<longleftrightarrow> rtranclp step initial_world w"

subsection \<open>Invariants\<close>

text \<open>Every handle in use was issued: it is below the counter of its kind.\<close>

definition handles_issued :: "world \<Rightarrow> bool" where
  "handles_issued w \<longleftrightarrow>
     (\<forall>h e. chatSessionItemProviders w h = Some e
        \<longrightarrow> h < nextChatSessionItemProviderHandle w) \<and>
     (\<forall>h e. chatSessionContentProviders w h = Some e
        \<longrightarrow> h < nextChatSessionContentProviderHandle w)"

text \<open>The objects that an entry of the session map holds: its store and its token source.\<close>

definition session_objects :: "session_entry \<Rightarrow> object_id set" where
  "session_objects e = {sessionDisposables (sessionObj e), disposeCts e}"

text \<open>Every object that a map refers to has been created.\<close>

definition objects_allocated :: "world \<Rightarrow> bool" where
  "objects_allocated w \<longleftrightarrow>
     (\<forall>h e. chatSessionItemProviders w h = Some e \<longrightarrow> item_disposable e < next_object w) \<and>
     (\<forall>h e. chatSessionContentProviders w h = Some e
        \<longrightarrow> content_disposable e < next_object w) \<and>
     (\<forall>k e. extHostChatSessions w k = Some e \<longrightarrow> (\<forall>x \<in> session_objects e. x < next_object w))"

text \<open>
  The store of an entry is not its token source, and two entries under different keys
  have no object in common.
\<close>

definition sessions_unshared :: "world \<Rightarrow> bool" where
  "sessions_unshared w \<longleftrightarrow>
     (\<forall>k e. extHostChatSessions w k = Some e
        \<longrightarrow> sessionDisposables (sessionObj e) \<noteq> disposeCts e) \<and>
     (\<forall>k k' e e'. extHostChatSessions w k = Some e \<and> extHostChatSessions w k' = Some e'
        \<and> k \<noteq> k' \<longrightarrow> session_objects e \<inter> session_objects e' = {})"

text \<open>An item of \<^verbatim>\<open>_sessionMap\<close> is stored under its own id, which is truthy.\<close>

definition sessionMap_keyed :: "world \<Rightarrow> bool" where
  "sessionMap_keyed w \<longleftrightarrow>
     (\<forall>k item. sessionMap w k = Some item \<longrightarrow> k = item_id item \<and> k \<noteq> [])"

definition invariant :: "world \<Rightarrow> bool" where
  "invariant w \<longleftrightarrow>
     handles_issued w \<and> objects_allocated w \<and> sessions_unshared w \<and> sessionMap_keyed w"

subsection \<open>Reading a rendered number back\<close>

definition digits_value :: "string \<Rightarrow> nat" where
  "digits_value cs = foldl (\<lambda>a c. 10 * a + (of_char c - 48)) 0 cs"

subsection \<open>What the loop of \<^verbatim>\<open>$provideChatSessionItems\<close> leaves in the session map\<close>

text \<open>
  The map after the rounds of the loop for \<open>ss\<close>, from the map \<open>m\<close>: every item with a
  truthy id is set under its id, in the order of the list.
\<close>

definition stored_items ::
  "chat_session_item list \<Rightarrow> (string \<rightharpoonup> chat_session_item) \<Rightarrow> (string \<rightharpoonup> chat_session_item)" where
  "stored_items ss m =
     fold (\<lambda>item m'. if item_id item \<noteq> [] then m'(item_id item \<mapsto> item) else m') ss m"

subsection \<open>A small run\<close>

text \<open>
  An extension registers an item provider and a content provider; the main thread then
  asks for the content of session \<open>s1\<close> of the content provider. Two of the items of the
  item provider have the same id, and one has an empty id.
\<close>

definition example_items :: "chat_session_item list" where
  "example_items =
     [\<lparr>item_id = ''a'', item_label = ''first'', item_iconPath = None\<rparr>,
      \<lparr>item_id = [], item_label = ''nameless'', item_iconPath = None\<rparr>,
      \<lparr>item_id = ''a'', item_label = ''second'', item_iconPath = Some ''icon''\<rparr>,
      \<lparr>item_id = ''b'', item_label = ''third'', item_iconPath = None\<rparr>]"

definition example_item_provider :: chat_session_item_provider where
  "example_item_provider =
     \<lparr>provideChatSessionItems = (\<lambda>token. Inr (Some example_items)),
      onDidChangeChatSessionItems = Some 0\<rparr>"

definition example_session :: chat_session where
  "example_session =
     \<lparr>history = [ChatRequestTurn ''hello'', ChatResponseTurn2 [''text'', ''unknown'', ''more'']],
      activeResponseCallback = Some (\<lambda>stream' token. Inr ()),
      requestHandler = Some (\<lambda>request h stream' token. Inr ())\<rparr>"

definition example_content_provider :: chat_session_content_provider where
  "example_content_provider = \<lparr>provideChatSessionContent = (\<lambda>id' token. Inr example_session)\<rparr>"

definition example_from_part :: "chat_response_part \<Rightarrow> object_id \<Rightarrow> chat_progress_dto option" where
  "example_from_part r store = (if r = ''unknown'' then None else Some (''dto '' @ r))"

definition example_language_models :: language_models where
  "example_language_models =
     \<lparr>getLanguageModelByIdentifier = (\<lambda>ext modelId. None),
      getDefaultLanguageModel = (\<lambda>ext. Some ''default model'')\<rparr>"

definition world_1 :: world where
  "world_1 = snd (registerChatSessionItemProvider ''ext'' ''type'' example_item_provider
     initial_world)"

definition world_2 :: world where
  "world_2 = snd (registerChatSessionContentProvider ''ext'' ''type'' example_content_provider
     world_1)"

definition world_3 :: world where
  "world_3 = snd (dollar_provideChatSessionContent example_from_part 0 ''s1''
     (CancellationToken 1) world_2)"

definition example_request :: chat_agent_request where
  "example_request =
     \<lparr>req_sessionId = ''s1'', req_requestId = ''request 1'', req_agentId = ''agent'',
      req_message = ''hello'', req_variables = [], req_location = Panel,
      req_userSelectedModelId = Some ''chosen''\<rparr>"

definition example_dto :: chat_session_dto where
  "example_dto =
     \<lparr>session_dto_id = ''0'', hasActiveResponseCallback = True, hasRequestHandler = True,
      session_dto_history = [Request_item ''hello'', Response_item [''dto text'', ''dto more'']]\<rparr>"

text \<open>The main thread then asks for the content of a second session, \<open>s2\<close>.\<close>

definition world_4 :: world where
  "world_4 = snd (dollar_provideChatSessionContent example_from_part 0 ''s2''
     (CancellationToken 3) world_3)"

section \<open>Properties\<close>

subsection \<open>Rendered numbers and composite keys\<close>

lemma digit_char_code: "d < 10 \<Longrightarrow> (of_char (digit_char d) :: nat) = 48 + d"
  by (simp add: digit_char_def)

lemma digits_of_nat_codes:
  "c \<in> set (digits_of_nat n) \<Longrightarrow> 48 \<le> (of_char c :: nat) \<and> (of_char c :: nat) \<le> 57"
proof (induction n rule: digits_of_nat.induct)
  case (1 n)
  have last_digit: "48 \<le> (of_char (digit_char (n mod 10)) :: nat)
      \<and> (of_char (digit_char (n mod 10)) :: nat) \<le> 57"
    by (simp add: digit_char_code)
  show ?case
  proof (cases "n < 10")
    case True
    then have "c = digit_char n"
      using "1.prems" by (simp add: digits_of_nat.simps [of n])
    then show ?thesis
      using True by (simp add: digit_char_code)
  next
    case False
    then have "c \<in> set (digits_of_nat (n div 10)) \<or> c = digit_char (n mod 10)"
      using "1.prems" by (auto simp add: digits_of_nat.simps [of n])
    then show ?thesis
      using "1.IH" False last_digit by blast
  qed
qed

lemma underscore_not_in_number: "CHR ''_'' \<notin> set (number_to_string i)"
proof
  assume "CHR ''_'' \<in> set (number_to_string i)"
  then have "CHR ''_'' \<in> set (digits_of_nat (nat (- i)))
      \<or> CHR ''_'' \<in> set (digits_of_nat (nat i))"
    by (simp add: number_to_string_def split: if_splits)
  then have "(of_char CHR ''_'' :: nat) \<le> 57"
    using digits_of_nat_codes by blast
  then show False by simp
qed

lemma minus_not_in_digits: "CHR ''-'' \<notin> set (digits_of_nat n)"
proof
  assume "CHR ''-'' \<in> set (digits_of_nat n)"
  then have "48 \<le> (of_char CHR ''-'' :: nat)"
    using digits_of_nat_codes by blast
  then show False by simp
qed

text \<open>Reading the digits back gives the number, so the rendering is injective.\<close>

lemma digits_value_digits_of_nat: "digits_value (digits_of_nat n) = n"
proof (induction n rule: digits_of_nat.induct)
  case (1 n)
  show ?case
  proof (cases "n < 10")
    case True
    then show ?thesis
      by (simp add: digits_of_nat.simps [of n] digits_value_def digit_char_code)
  next
    case False
    then have "digits_value (digits_of_nat n)
        = 10 * digits_value (digits_of_nat (n div 10)) + n mod 10"
      by (simp add: digits_of_nat.simps [of n] digits_value_def digit_char_code)
    then show ?thesis
      using "1.IH" False by simp
  qed
qed

lemma digits_of_nat_inj: "digits_of_nat m = digits_of_nat n \<Longrightarrow> m = n"
  by (metis digits_value_digits_of_nat)

lemma number_to_string_inj: "number_to_string i = number_to_string j \<Longrightarrow> i = j"
proof -
  assume eq: "number_to_string i = number_to_string j"
  consider "i < 0" "j < 0" | "0 \<le> i" "0 \<le> j" | "i < 0" "0 \<le> j" | "0 \<le> i" "j < 0"
    by linarith
  then show ?thesis
  proof cases
    case 1
    then have "digits_of_nat (nat (- i)) = digits_of_nat (nat (- j))"
      using eq by (simp add: number_to_string_def)
    then have "nat (- i) = nat (- j)" by (rule digits_of_nat_inj)
    then show ?thesis using 1 by linarith
  next
    case 2
    then have "digits_of_nat (nat i) = digits_of_nat (nat j)"
      using eq by (simp add: number_to_string_def)
    then have "nat i = nat j" by (rule digits_of_nat_inj)
    then show ?thesis using 2 by linarith
  next
    case 3
    then have "CHR ''-'' # digits_of_nat (nat (- i)) = digits_of_nat (nat j)"
      using eq by (simp add: number_to_string_def)
    then have "CHR ''-'' \<in> set (digits_of_nat (nat j))"
      by (metis list.set_intros(1))
    then show ?thesis using minus_not_in_digits by blast
  next
    case 4
    then have "digits_of_nat (nat i) = CHR ''-'' # digits_of_nat (nat (- j))"
      using eq by (simp add: number_to_string_def)
    then have "CHR ''-'' \<in> set (digits_of_nat (nat i))"
      by (metis list.set_intros(1))
    then show ?thesis using minus_not_in_digits by blast
  qed
qed

lemma split_at_first_underscore:
  assumes "CHR ''_'' \<notin> set xs"
  shows "takeWhile (\<lambda>c. c \<noteq> CHR ''_'') (xs @ CHR ''_'' # ys) = xs"
    and "dropWhile (\<lambda>c. c \<noteq> CHR ''_'') (xs @ CHR ''_'' # ys) = CHR ''_'' # ys"
  using assms by (induction xs) auto

text \<open>
  The composite key \<^verbatim>\<open>`${handle}_${id}`\<close> determines the handle and the id: the rendered
  number has no underscore, so the key splits at its first underscore.
\<close>

lemma session_key_inj:
  assumes "number_to_string h @ ''_'' @ i = number_to_string h' @ ''_'' @ i'"
  shows "h = h' \<and> i = i'"
proof -
  let ?P = "\<lambda>c. c \<noteq> CHR ''_''"
  have l: "takeWhile ?P (number_to_string h @ ''_'' @ i) = number_to_string h"
    "dropWhile ?P (number_to_string h @ ''_'' @ i) = CHR ''_'' # i"
    using split_at_first_underscore [OF underscore_not_in_number] by simp_all
  have r: "takeWhile ?P (number_to_string h' @ ''_'' @ i') = number_to_string h'"
    "dropWhile ?P (number_to_string h' @ ''_'' @ i') = CHR ''_'' # i'"
    using split_at_first_underscore [OF underscore_not_in_number] by simp_all
  from l r assms have "number_to_string h = number_to_string h'" and "i = i'"
    by simp_all
  then show ?thesis
    using number_to_string_inj by blast
qed

subsection \<open>The loop of \<^verbatim>\<open>$provideChatSessionItems\<close>\<close>

lemma stored_items_Nil [simp]: "stored_items [] m = m"
  by (simp add: stored_items_def)

lemma stored_items_Cons:
  "stored_items (item # ss) m =
     stored_items ss (if item_id item \<noteq> [] then m(item_id item \<mapsto> item) else m)"
  by (simp add: stored_items_def)

lemma stored_items_append: "stored_items (xs @ ys) m = stored_items ys (stored_items xs m)"
  by (simp add: stored_items_def)

lemma provideChatSessionItems_loop_eq:
  "provideChatSessionItems_loop ss r w =
     (r @ map (\<lambda>item. \<lparr>dto_id = item_id item, dto_label = item_label item,
                       dto_iconPath = item_iconPath item\<rparr>)
           (filter (\<lambda>item. item_id item \<noteq> []) ss),
      w\<lparr>sessionMap := stored_items ss (sessionMap w)\<rparr>)"
  by (induction ss arbitrary: r w) (simp_all add: stored_items_Cons)

lemma stored_items_keyed:
  assumes "\<forall>k item. m k = Some item \<longrightarrow> k = item_id item \<and> k \<noteq> []"
  shows "\<forall>k item. stored_items ss m k = Some item \<longrightarrow> k = item_id item \<and> k \<noteq> []"
  using assms
proof (induction ss arbitrary: m)
  case Nil
  show ?case unfolding stored_items_Nil by (rule Nil.prems)
next
  case (Cons a ss)
  let ?m = "if item_id a \<noteq> [] then m(item_id a \<mapsto> a) else m"
  have "\<forall>k item. ?m k = Some item \<longrightarrow> k = item_id item \<and> k \<noteq> []"
  proof (intro allI impI)
    fix k item
    assume stored: "?m k = Some item"
    show "k = item_id item \<and> k \<noteq> []"
    proof (cases "item_id a \<noteq> [] \<and> k = item_id a")
      case True
      then have "item = a" using stored by simp
      then show ?thesis using True by simp
    next
      case False
      then have "m k = Some item" using stored by (auto split: if_splits)
      then show ?thesis using Cons.prems by blast
    qed
  qed
  then have "\<forall>k item. stored_items ss ?m k = Some item \<longrightarrow> k = item_id item \<and> k \<noteq> []"
    by (rule Cons.IH)
  then show ?case unfolding stored_items_Cons .
qed

subsection \<open>The world after each call\<close>

lemma registerChatSessionItemProvider_world:
  "snd (registerChatSessionItemProvider ext ty p w) =
     w\<lparr>chatSessionItemProviders := (chatSessionItemProviders w)
          (nextChatSessionItemProviderHandle w \<mapsto>
             \<lparr>item_provider = p, item_extension = ext, item_disposable = next_object w\<rparr>),
       nextChatSessionItemProviderHandle := nextChatSessionItemProviderHandle w + 1,
       next_object := (case onDidChangeChatSessionItems p of
                         None \<Rightarrow> Suc (next_object w) | Some ev \<Rightarrow> Suc (Suc (next_object w))),
       trace := trace (snd (registerChatSessionItemProvider ext ty p w))\<rparr>"
  by (simp add: registerChatSessionItemProvider_def new_DisposableStore_def emit_def
      subscribe_def DisposableStore_add_call_def Let_def split: option.split)

lemma registerChatSessionContentProvider_world:
  "snd (registerChatSessionContentProvider ext ty p w) =
     w\<lparr>chatSessionContentProviders := (chatSessionContentProviders w)
          (nextChatSessionContentProviderHandle w \<mapsto>
             \<lparr>content_provider = p, content_extension = ext,
              content_disposable = next_object w\<rparr>),
       nextChatSessionContentProviderHandle := nextChatSessionContentProviderHandle w + 1,
       next_object := Suc (next_object w),
       trace := trace (snd (registerChatSessionContentProvider ext ty p w))\<rparr>"
  by (simp add: registerChatSessionContentProvider_def new_DisposableStore_def emit_def
      Let_def)

lemma dispose_ChatSessionItemProvider_world:
  "dispose_ChatSessionItemProvider reg w =
     w\<lparr>chatSessionItemProviders := (chatSessionItemProviders w)(reg_handle reg := None),
       trace := trace (dispose_ChatSessionItemProvider reg w)\<rparr>"
  by (simp add: dispose_ChatSessionItemProvider_def DisposableStore_dispose_call_def emit_def
      Let_def)

lemma dispose_ChatSessionContentProvider_world:
  "dispose_ChatSessionContentProvider reg w =
     w\<lparr>chatSessionContentProviders := (chatSessionContentProviders w)(reg_handle reg := None),
       trace := trace (dispose_ChatSessionContentProvider reg w)\<rparr>"
  by (simp add: dispose_ChatSessionContentProvider_def DisposableStore_dispose_call_def emit_def
      Let_def)

lemma provideChatSessionItems_resume_world:
  "snd (provideChatSessionItems_resume sessions w) =
     w\<lparr>sessionMap := stored_items (case sessions of None \<Rightarrow> [] | Some ss \<Rightarrow> ss) (sessionMap w)\<rparr>"
  by (simp add: provideChatSessionItems_resume_def provideChatSessionItems_loop_eq
      split: option.split)

lemma provideChatSessionContent_resume_world:
  "snd (provideChatSessionContent_resume from_part handle id' entry s w) =
     w\<lparr>sessionHandlePool := sessionHandlePool w + 1,
       extHostChatSessions := (extHostChatSessions w)
         (number_to_string handle @ ''_'' @ id' \<mapsto>
            \<lparr>sessionObj = new_ExtHostChatSession s (content_extension entry)
               \<lparr>req_sessionId = id' @ ''.'' @ number_to_string (sessionHandlePool w),
                req_requestId = ''ongoing'', req_agentId = id', req_message = [],
                req_variables = [], req_location = Panel, req_userSelectedModelId = None\<rparr>
               \<lparr>proxy_handle = handle, proxy_id = id'\<rparr> (next_object w),
             disposeCts = Suc (next_object w)\<rparr>),
       next_object := Suc (Suc (next_object w)),
       trace := trace (snd (provideChatSessionContent_resume from_part handle id' entry s w))\<rparr>"
  by (simp add: provideChatSessionContent_resume_def new_DisposableStore_def emit_def
      new_CancellationTokenSource_def DisposableStore_add_call_def Let_def
      split: option.split sum.split)

lemma dollar_disposeChatSessionContent_world:
  "dollar_disposeChatSessionContent handle id' w =
     w\<lparr>extHostChatSessions :=
          (extHostChatSessions w)(number_to_string handle @ ''_'' @ id' := None),
       trace := trace (dollar_disposeChatSessionContent handle id' w)\<rparr>"
  by (cases "extHostChatSessions w (number_to_string handle @ ''_'' @ id')")
    (simp_all add: dollar_disposeChatSessionContent_def emit_def Let_def
      CancellationTokenSource_cancel_call_def DisposableStore_dispose_call_def fun_upd_idem)

subsection \<open>The invariants hold in every reachable world\<close>

text \<open>The invariants do not read the trace, nor the pool of session numbers.\<close>

lemma invariant_trace [simp]: "invariant (w\<lparr>trace := t\<rparr>) = invariant w"
  by (simp add: invariant_def handles_issued_def objects_allocated_def sessions_unshared_def
      sessionMap_keyed_def)

lemma invariant_emit [simp]: "invariant (emit e w) = invariant w"
  by (simp add: emit_def)

lemma invariant_initial_world: "invariant initial_world"
  by (simp add: invariant_def handles_issued_def objects_allocated_def sessions_unshared_def
      sessionMap_keyed_def initial_world_def)

lemma invariant_registerChatSessionItemProvider:
  assumes "invariant w"
  shows "invariant (snd (registerChatSessionItemProvider ext ty p w))"
proof -
  let ?w = "snd (registerChatSessionItemProvider ext ty p w)"
  have "handles_issued ?w"
    using assms by (subst registerChatSessionItemProvider_world)
      (auto simp: invariant_def handles_issued_def)
  moreover have "objects_allocated ?w"
    using assms by (subst registerChatSessionItemProvider_world)
      (auto simp: invariant_def objects_allocated_def less_Suc_eq split: option.split)
  moreover have "sessions_unshared ?w"
    using assms by (subst registerChatSessionItemProvider_world)
      (simp add: invariant_def sessions_unshared_def)
  moreover have "sessionMap_keyed ?w"
    using assms by (subst registerChatSessionItemProvider_world)
      (simp add: invariant_def sessionMap_keyed_def)
  ultimately show ?thesis by (simp add: invariant_def)
qed

lemma invariant_registerChatSessionContentProvider:
  assumes "invariant w"
  shows "invariant (snd (registerChatSessionContentProvider ext ty p w))"
proof -
  let ?w = "snd (registerChatSessionContentProvider ext ty p w)"
  have "handles_issued ?w"
    using assms by (subst registerChatSessionContentProvider_world)
      (auto simp: invariant_def handles_issued_def)
  moreover have "objects_allocated ?w"
    using assms by (subst registerChatSessionContentProvider_world)
      (auto simp: invariant_def objects_allocated_def less_Suc_eq)
  moreover have "sessions_unshared ?w"
    using assms by (subst registerChatSessionContentProvider_world)
      (simp add: invariant_def sessions_unshared_def)
  moreover have "sessionMap_keyed ?w"
    using assms by (subst registerChatSessionContentProvider_world)
      (simp add: invariant_def sessionMap_keyed_def)
  ultimately show ?thesis by (simp add: invariant_def)
qed

lemma invariant_dispose_ChatSessionItemProvider:
  assumes "invariant w"
  shows "invariant (dispose_ChatSessionItemProvider reg w)"
  using assms by (subst dispose_ChatSessionItemProvider_world)
    (simp add: invariant_def handles_issued_def objects_allocated_def sessions_unshared_def
      sessionMap_keyed_def)

lemma invariant_dispose_ChatSessionContentProvider:
  assumes "invariant w"
  shows "invariant (dispose_ChatSessionContentProvider reg w)"
  using assms by (subst dispose_ChatSessionContentProvider_world)
    (simp add: invariant_def handles_issued_def objects_allocated_def sessions_unshared_def
      sessionMap_keyed_def)

lemma invariant_provideChatSessionItems_resume:
  assumes "invariant w"
  shows "invariant (snd (provideChatSessionItems_resume sessions w))"
proof -
  let ?w = "snd (provideChatSessionItems_resume sessions w)"
  have keyed: "\<forall>k item. sessionMap w k = Some item \<longrightarrow> k = item_id item \<and> k \<noteq> []"
    using assms by (simp add: invariant_def sessionMap_keyed_def)
  have stored: "sessionMap ?w =
      stored_items (case sessions of None \<Rightarrow> [] | Some ss \<Rightarrow> ss) (sessionMap w)"
    by (simp add: provideChatSessionItems_resume_world)
  have "sessionMap_keyed ?w"
    unfolding sessionMap_keyed_def stored by (rule stored_items_keyed [OF keyed])
  moreover have "handles_issued ?w" "objects_allocated ?w" "sessions_unshared ?w"
    using assms unfolding provideChatSessionItems_resume_world
    by (simp_all add: invariant_def handles_issued_def objects_allocated_def
        sessions_unshared_def)
  ultimately show ?thesis by (simp add: invariant_def)
qed

lemma invariant_dollar_disposeChatSessionContent:
  assumes "invariant w"
  shows "invariant (dollar_disposeChatSessionContent handle id' w)"
proof -
  let ?w = "dollar_disposeChatSessionContent handle id' w"
  have "handles_issued ?w" "sessionMap_keyed ?w"
    using assms by (subst dollar_disposeChatSessionContent_world,
      simp add: invariant_def handles_issued_def sessionMap_keyed_def)+
  moreover have "objects_allocated ?w"
    using assms by (subst dollar_disposeChatSessionContent_world)
      (simp add: invariant_def objects_allocated_def)
  moreover have "sessions_unshared ?w"
    using assms by (subst dollar_disposeChatSessionContent_world)
      (simp add: invariant_def sessions_unshared_def)
  ultimately show ?thesis by (simp add: invariant_def)
qed

lemma invariant_provideChatSessionContent_resume:
  assumes "invariant w"
  shows "invariant (snd (provideChatSessionContent_resume from_part handle id' entry s w))"
proof -
  let ?w = "snd (provideChatSessionContent_resume from_part handle id' entry s w)"
  have "handles_issued ?w" "sessionMap_keyed ?w"
    using assms by (subst provideChatSessionContent_resume_world,
      simp add: invariant_def handles_issued_def sessionMap_keyed_def)+
  moreover have "objects_allocated ?w"
    using assms by (subst provideChatSessionContent_resume_world)
      (auto simp: invariant_def objects_allocated_def session_objects_def
        new_ExtHostChatSession_def less_Suc_eq)
  moreover have "sessions_unshared ?w"
  proof -
    have old: "\<And>k e. extHostChatSessions w k = Some e \<Longrightarrow>
        sessionDisposables (sessionObj e) < next_object w \<and> disposeCts e < next_object w"
      using assms by (simp add: invariant_def objects_allocated_def session_objects_def)
    have u: "sessions_unshared w"
      using assms by (simp add: invariant_def)
    show ?thesis
      using u by (subst provideChatSessionContent_resume_world)
        (auto simp: sessions_unshared_def session_objects_def new_ExtHostChatSession_def
          dest: old)
  qed
  ultimately show ?thesis by (simp add: invariant_def)
qed

lemma invariant_dollar_provideChatSessionItems:
  assumes "invariant w"
  shows "invariant (snd (dollar_provideChatSessionItems handle token w))"
proof (cases "chatSessionItemProviders w handle")
  case None
  then show ?thesis
    using assms by (simp add: dollar_provideChatSessionItems_def)
next
  case (Some entry)
  let ?w1 = "emit (Call_provideChatSessionItems (item_provider entry) token) w"
  show ?thesis
  proof (cases "provideChatSessionItems (item_provider entry) token")
    case (Inl e)
    then show ?thesis
      using assms Some by (simp add: dollar_provideChatSessionItems_def)
  next
    case (Inr sessions)
    then have "snd (dollar_provideChatSessionItems handle token w) =
        snd (provideChatSessionItems_resume sessions ?w1)"
      using Some by (simp add: dollar_provideChatSessionItems_def split: prod.split)
    then show ?thesis
      using assms by (simp add: invariant_provideChatSessionItems_resume)
  qed
qed

lemma invariant_dollar_provideChatSessionContent:
  assumes "invariant w"
  shows "invariant (snd (dollar_provideChatSessionContent from_part handle id' token w))"
proof (cases "chatSessionContentProviders w handle")
  case None
  then show ?thesis
    using assms by (simp add: dollar_provideChatSessionContent_def)
next
  case (Some entry)
  show ?thesis
  proof (cases "provideChatSessionContent (content_provider entry) id' token")
    case (Inl e)
    then show ?thesis
      using assms Some by (simp add: dollar_provideChatSessionContent_def)
  next
    case (Inr s)
    then show ?thesis
      using assms Some
      by (simp add: dollar_provideChatSessionContent_def
          invariant_provideChatSessionContent_resume)
  qed
qed

lemma dollar_invokeChatSessionRequestHandler_world:
  "\<exists>t. snd (dollar_invokeChatSessionRequestHandler lm handle id' request h token w) =
     w\<lparr>trace := t\<rparr>"
proof -
  have same: "w = w\<lparr>trace := trace w\<rparr>" by simp
  show ?thesis
    by (auto simp add: dollar_invokeChatSessionRequestHandler_def emit_def Let_def
        split: option.split sum.split intro: same)
qed

lemma processArgument_world: "\<exists>t. snd (processArgument arg w) = w\<lparr>trace := t\<rparr>"
proof -
  have same: "w = w\<lparr>trace := trace w\<rparr>" by simp
  show ?thesis
    by (auto simp add: processArgument_def emit_def split: argument.split option.split
        intro: same)
qed

lemma step_invariant: "step w w' \<Longrightarrow> invariant w \<Longrightarrow> invariant w'"
proof (induction rule: step.induct)
  case (process_argument w arg)
  obtain t where "snd (processArgument arg w) = w\<lparr>trace := t\<rparr>"
    using processArgument_world by blast
  then show ?case
    using process_argument by simp
next
  case (invoke_handler w lm handle id' request h token)
  obtain t where "snd (dollar_invokeChatSessionRequestHandler lm handle id' request h token w) =
      w\<lparr>trace := t\<rparr>"
    using dollar_invokeChatSessionRequestHandler_world by blast
  then show ?case
    using invoke_handler by simp
qed (simp_all add: invariant_registerChatSessionItemProvider
    invariant_dispose_ChatSessionItemProvider invariant_registerChatSessionContentProvider
    invariant_dispose_ChatSessionContentProvider invariant_dollar_provideChatSessionItems
    invariant_provideChatSessionItems_resume invariant_dollar_provideChatSessionContent
    invariant_provideChatSessionContent_resume invariant_dollar_disposeChatSessionContent
    onDidChangeChatSessionItems_listener_def handleProgressChunk_def handleAnchorResolve_def
    activeResponse_finally_def showChatSession_def)

lemma reachable_invariant: "reachable w \<Longrightarrow> invariant w"
  unfolding reachable_def
  by (induction rule: rtranclp_induct) (simp_all add: invariant_initial_world step_invariant)

subsection \<open>Handles\<close>

lemma registerChatSessionItemProvider_handle:
  "reg_handle (fst (registerChatSessionItemProvider ext ty p w)) =
     nextChatSessionItemProviderHandle w"
  by (simp add: registerChatSessionItemProvider_def Let_def split: prod.split)

lemma registerChatSessionContentProvider_handle:
  "reg_handle (fst (registerChatSessionContentProvider ext ty q w)) =
     nextChatSessionContentProviderHandle w"
  by (simp add: registerChatSessionContentProvider_def Let_def split: prod.split)

lemma registerChatSessionItemProvider_fields:
  "nextChatSessionItemProviderHandle (snd (registerChatSessionItemProvider ext ty p w)) =
     nextChatSessionItemProviderHandle w + 1"
  "nextChatSessionContentProviderHandle (snd (registerChatSessionItemProvider ext ty p w)) =
     nextChatSessionContentProviderHandle w"
  "chatSessionItemProviders (snd (registerChatSessionItemProvider ext ty p w)) =
     (chatSessionItemProviders w)(nextChatSessionItemProviderHandle w \<mapsto>
       \<lparr>item_provider = p, item_extension = ext, item_disposable = next_object w\<rparr>)"
  "chatSessionContentProviders (snd (registerChatSessionItemProvider ext ty p w)) =
     chatSessionContentProviders w"
  by (subst registerChatSessionItemProvider_world, simp)+

lemma registerChatSessionContentProvider_fields:
  "nextChatSessionContentProviderHandle (snd (registerChatSessionContentProvider ext ty q w)) =
     nextChatSessionContentProviderHandle w + 1"
  "nextChatSessionItemProviderHandle (snd (registerChatSessionContentProvider ext ty q w)) =
     nextChatSessionItemProviderHandle w"
  "chatSessionContentProviders (snd (registerChatSessionContentProvider ext ty q w)) =
     (chatSessionContentProviders w)(nextChatSessionContentProviderHandle w \<mapsto>
       \<lparr>content_provider = q, content_extension = ext, content_disposable = next_object w\<rparr>)"
  "chatSessionItemProviders (snd (registerChatSessionContentProvider ext ty q w)) =
     chatSessionItemProviders w"
  by (subst registerChatSessionContentProvider_world, simp)+

text \<open>The atomic methods, in terms of their second halves.\<close>

lemma dollar_provideChatSessionItems_cases:
  "(\<exists>t. snd (dollar_provideChatSessionItems handle token w) = w\<lparr>trace := t\<rparr>) \<or>
   (\<exists>sessions e. snd (dollar_provideChatSessionItems handle token w) =
      snd (provideChatSessionItems_resume sessions (emit e w)))"
proof (cases "chatSessionItemProviders w handle")
  case None
  then show ?thesis
    by (simp add: dollar_provideChatSessionItems_def emit_def) blast
next
  case (Some entry)
  show ?thesis
  proof (cases "provideChatSessionItems (item_provider entry) token")
    case (Inl e)
    then show ?thesis
      using Some by (simp add: dollar_provideChatSessionItems_def emit_def) blast
  next
    case (Inr sessions)
    then have "snd (dollar_provideChatSessionItems handle token w) =
        snd (provideChatSessionItems_resume sessions
          (emit (Call_provideChatSessionItems (item_provider entry) token) w))"
      using Some by (simp add: dollar_provideChatSessionItems_def split: prod.split)
    then show ?thesis by blast
  qed
qed

lemma dollar_provideChatSessionContent_cases:
  "(\<exists>t. snd (dollar_provideChatSessionContent from_part handle id' token w) = w\<lparr>trace := t\<rparr>) \<or>
   (\<exists>entry s e. snd (dollar_provideChatSessionContent from_part handle id' token w) =
      snd (provideChatSessionContent_resume from_part handle id' entry s (emit e w)))"
proof (cases "chatSessionContentProviders w handle")
  case None
  then have "snd (dollar_provideChatSessionContent from_part handle id' token w) =
      w\<lparr>trace := trace w\<rparr>"
    by (simp add: dollar_provideChatSessionContent_def)
  then show ?thesis by blast
next
  case (Some entry)
  show ?thesis
  proof (cases "provideChatSessionContent (content_provider entry) id' token")
    case (Inl e)
    then show ?thesis
      using Some by (simp add: dollar_provideChatSessionContent_def emit_def) blast
  next
    case (Inr s)
    then show ?thesis
      using Some by (simp add: dollar_provideChatSessionContent_def) blast
  qed
qed

text \<open>No step lowers a counter.\<close>

lemma step_counters:
  "step w w' \<Longrightarrow>
     nextChatSessionItemProviderHandle w \<le> nextChatSessionItemProviderHandle w' \<and>
     nextChatSessionContentProviderHandle w \<le> nextChatSessionContentProviderHandle w'"
proof (induction rule: step.induct)
  case (register_item w ext chatSessionType p)
  show ?case by (simp add: registerChatSessionItemProvider_fields)
next
  case (dispose_item w reg)
  show ?case by (subst (1 2) dispose_ChatSessionItemProvider_world) simp
next
  case (items_changed w chatSessionType)
  show ?case by (simp add: onDidChangeChatSessionItems_listener_def emit_def)
next
  case (register_content w ext chatSessionType q)
  show ?case by (simp add: registerChatSessionContentProvider_fields)
next
  case (dispose_content w reg)
  show ?case by (subst (1 2) dispose_ChatSessionContentProvider_world) simp
next
  case (provide_items w handle token)
  show ?case
    using dollar_provideChatSessionItems_cases [of handle token w]
    by (auto simp: provideChatSessionItems_resume_world emit_def)
next
  case (provide_items_resume w sessions)
  show ?case by (simp add: provideChatSessionItems_resume_world)
next
  case (provide_content w from_part handle id' token)
  have "\<And>entry s e. nextChatSessionItemProviderHandle
        (snd (provideChatSessionContent_resume from_part handle id' entry s (emit e w))) =
          nextChatSessionItemProviderHandle w
      \<and> nextChatSessionContentProviderHandle
        (snd (provideChatSessionContent_resume from_part handle id' entry s (emit e w))) =
          nextChatSessionContentProviderHandle w"
    by (subst (1 2) provideChatSessionContent_resume_world) (simp add: emit_def)
  then show ?case
    using dollar_provideChatSessionContent_cases [of from_part handle id' token w]
    by auto
next
  case (provide_content_resume w from_part handle id' entry s)
  show ?case by (subst (1 2) provideChatSessionContent_resume_world) simp
next
  case (dispose_session w handle id')
  show ?case by (subst (1 2) dollar_disposeChatSessionContent_world) simp
next
  case (invoke_handler w lm handle id' request h token)
  obtain t where "snd (dollar_invokeChatSessionRequestHandler lm handle id' request h token w) =
      w\<lparr>trace := t\<rparr>"
    using dollar_invokeChatSessionRequestHandler_world by blast
  then show ?case by simp
next
  case (progress_chunk w pp requestId chunks)
  show ?case by (simp add: handleProgressChunk_def emit_def)
next
  case (anchor_resolve w pp requestId requestHandle anchor)
  show ?case by (simp add: handleAnchorResolve_def emit_def)
next
  case (response_settled w handle id')
  show ?case by (simp add: activeResponse_finally_def emit_def)
next
  case (show_session w chatSessionType sessionId viewColumn)
  show ?case by (simp add: showChatSession_def emit_def)
next
  case (process_argument w arg)
  obtain t where "snd (processArgument arg w) = w\<lparr>trace := t\<rparr>"
    using processArgument_world by blast
  then show ?case by simp
next
  case (collaborator_call w e)
  show ?case by (simp add: emit_def)
qed

lemma steps_counters:
  "rtranclp step w w' \<Longrightarrow>
     nextChatSessionItemProviderHandle w \<le> nextChatSessionItemProviderHandle w' \<and>
     nextChatSessionContentProviderHandle w \<le> nextChatSessionContentProviderHandle w'"
proof (induction rule: rtranclp_induct)
  case base
  show ?case by simp
next
  case (step y z)
  then show ?case
    using step_counters [of y z] by linarith
qed

lemma unused_item_handle:
  assumes "invariant w"
  shows "chatSessionItemProviders w (nextChatSessionItemProviderHandle w) = None"
proof (cases "chatSessionItemProviders w (nextChatSessionItemProviderHandle w)")
  case None
  then show ?thesis .
next
  case (Some e)
  then have "nextChatSessionItemProviderHandle w < nextChatSessionItemProviderHandle w"
    using assms unfolding invariant_def handles_issued_def by blast
  then show ?thesis by simp
qed

lemma unused_content_handle:
  assumes "invariant w"
  shows "chatSessionContentProviders w (nextChatSessionContentProviderHandle w) = None"
proof (cases "chatSessionContentProviders w (nextChatSessionContentProviderHandle w)")
  case None
  then show ?thesis .
next
  case (Some e)
  then have "nextChatSessionContentProviderHandle w < nextChatSessionContentProviderHandle w"
    using assms unfolding invariant_def handles_issued_def by blast
  then show ?thesis by simp
qed

lemma later_item_handle:
  assumes "rtranclp step (snd (registerChatSessionItemProvider ext ty p w)) w'"
  shows "reg_handle (fst (registerChatSessionItemProvider ext ty p w))
     < reg_handle (fst (registerChatSessionItemProvider ext' ty' p' w'))"
  using steps_counters [OF assms]
  by (simp add: registerChatSessionItemProvider_handle registerChatSessionItemProvider_fields)

lemma later_content_handle:
  assumes "rtranclp step (snd (registerChatSessionContentProvider ext ty q w)) w'"
  shows "reg_handle (fst (registerChatSessionContentProvider ext ty q w))
     < reg_handle (fst (registerChatSessionContentProvider ext' ty' q' w'))"
  using steps_counters [OF assms]
  by (simp add: registerChatSessionContentProvider_handle
      registerChatSessionContentProvider_fields)

lemma provideChatSessionItems_trace:
  assumes "chatSessionItemProviders w handle = Some entry"
  shows "trace (snd (dollar_provideChatSessionItems handle token w)) =
     trace w @ [Call_provideChatSessionItems (item_provider entry) token]"
  using assms
  by (simp add: dollar_provideChatSessionItems_def provideChatSessionItems_resume_def
      provideChatSessionItems_loop_eq emit_def Let_def split: sum.split option.split)

subsection \<open>Sessions and their composite keys\<close>

lemma provideChatSessionContent_resume_sessions:
  "extHostChatSessions (snd (provideChatSessionContent_resume from_part handle id' provider s w)) =
     (extHostChatSessions w)(number_to_string handle @ ''_'' @ id' \<mapsto>
        \<lparr>sessionObj = new_ExtHostChatSession s (content_extension provider)
           \<lparr>req_sessionId = id' @ ''.'' @ number_to_string (sessionHandlePool w),
            req_requestId = ''ongoing'', req_agentId = id', req_message = [],
            req_variables = [], req_location = Panel, req_userSelectedModelId = None\<rparr>
           \<lparr>proxy_handle = handle, proxy_id = id'\<rparr> (next_object w),
         disposeCts = Suc (next_object w)\<rparr>)"
  by (subst provideChatSessionContent_resume_world) simp

lemma dollar_provideChatSessionContent_resumed:
  assumes "chatSessionContentProviders w handle = Some provider"
    and "provideChatSessionContent (content_provider provider) id' token = Inr s"
  shows "dollar_provideChatSessionContent from_part handle id' token w =
     provideChatSessionContent_resume from_part handle id' provider s
       (emit (Call_provideChatSessionContent (content_provider provider) id' token) w)"
  using assms by (simp add: dollar_provideChatSessionContent_def)

lemma emit_fields [simp]:
  "chatSessionItemProviders (emit e w) = chatSessionItemProviders w"
  "chatSessionContentProviders (emit e w) = chatSessionContentProviders w"
  "nextChatSessionItemProviderHandle (emit e w) = nextChatSessionItemProviderHandle w"
  "nextChatSessionContentProviderHandle (emit e w) = nextChatSessionContentProviderHandle w"
  "sessionMap (emit e w) = sessionMap w"
  "sessionHandlePool (emit e w) = sessionHandlePool w"
  "extHostChatSessions (emit e w) = extHostChatSessions w"
  "next_object (emit e w) = next_object w"
  "trace (emit e w) = trace w @ [e]"
  by (simp_all add: emit_def)

lemma dollar_invokeChatSessionRequestHandler_handled:
  assumes "extHostChatSessions w (number_to_string handle @ ''_'' @ id') = Some entry"
    and "requestHandler (session (sessionObj entry)) = Some handler"
    and "getModelForRequest lm request (extension (sessionObj entry)) = Inr model"
  shows "dollar_invokeChatSessionRequestHandler lm handle id' request h token w =
     ((case handler \<lparr>cr_request = request, cr_model = model,
                     cr_extension = extension (sessionObj entry)\<rparr> h
              (getActiveRequestStream (sessionObj entry) request) token of
         Inl e \<Rightarrow> Inl e | Inr u \<Rightarrow> Inr ()),
      emit (Call_requestHandler (session (sessionObj entry))
        \<lparr>cr_request = request, cr_model = model, cr_extension = extension (sessionObj entry)\<rparr>
        h (getActiveRequestStream (sessionObj entry) request) token) w)"
  using assms
  by (simp add: dollar_invokeChatSessionRequestHandler_def Let_def split: sum.split)

lemma dollar_disposeChatSessionContent_known:
  assumes "extHostChatSessions w (number_to_string handle @ ''_'' @ id') = Some entry"
  shows "dollar_disposeChatSessionContent handle id' w =
     w\<lparr>extHostChatSessions := (extHostChatSessions w)(number_to_string handle @ ''_'' @ id' := None),
       trace := trace w @ [CancellationTokenSource_cancel (disposeCts entry),
                  DisposableStore_dispose (sessionDisposables (sessionObj entry))]\<rparr>"
  using assms
  by (simp add: dollar_disposeChatSessionContent_def CancellationTokenSource_cancel_call_def
      DisposableStore_dispose_call_def emit_def Let_def)

lemma disposeChatSessionContent_calling_known:
  assumes "extHostChatSessions w (number_to_string providerHandle @ ''_'' @ sessionId) = Some entry"
  shows "disposeChatSessionContent_calling cancel dispose providerHandle sessionId w =
     (dispose (sessionDisposables (sessionObj entry))
        (DisposableStore_dispose_call (sessionDisposables (sessionObj entry))
          (cancel (disposeCts entry)
            (CancellationTokenSource_cancel_call (disposeCts entry) w))))
     \<lparr>extHostChatSessions :=
        (extHostChatSessions
          (dispose (sessionDisposables (sessionObj entry))
            (DisposableStore_dispose_call (sessionDisposables (sessionObj entry))
              (cancel (disposeCts entry)
                (CancellationTokenSource_cancel_call (disposeCts entry) w)))))
        (number_to_string providerHandle @ ''_'' @ sessionId := None)\<rparr>"
  using assms by (simp add: disposeChatSessionContent_calling_def Let_def)

lemma dollar_disposeChatSessionContent_calling:
  "dollar_disposeChatSessionContent providerHandle sessionId w =
     disposeChatSessionContent_calling (\<lambda>obj w'. w') (\<lambda>obj w'. w') providerHandle sessionId w"
  by (simp add: dollar_disposeChatSessionContent_def disposeChatSessionContent_calling_def)

subsection \<open>Session items\<close>

lemma stored_items_unset: "k \<notin> item_id ` set ss \<Longrightarrow> stored_items ss m k = m k"
  by (induction ss arbitrary: m) (auto simp add: stored_items_Cons)

lemma stored_items_falsy: "stored_items ss m [] = m []"
  by (induction ss arbitrary: m) (auto simp add: stored_items_Cons)

lemma stored_items_last:
  assumes "item_id item \<noteq> []" and "item_id item \<notin> item_id ` set ys"
  shows "stored_items (xs @ item # ys) m (item_id item) = Some item"
  using assms by (simp add: stored_items_append stored_items_Cons stored_items_unset)

lemma dollar_provideChatSessionItems_provided:
  assumes "chatSessionItemProviders w handle = Some entry"
    and "provideChatSessionItems (item_provider entry) token = Inr (Some items)"
  shows "dollar_provideChatSessionItems handle token w =
     (Inr (map (\<lambda>item. \<lparr>dto_id = item_id item, dto_label = item_label item,
                          dto_iconPath = item_iconPath item\<rparr>)
            (filter (\<lambda>item. item_id item \<noteq> []) items)),
      w\<lparr>sessionMap := stored_items items (sessionMap w),
        trace := trace w @ [Call_provideChatSessionItems (item_provider entry) token]\<rparr>)"
  using assms
  by (simp add: dollar_provideChatSessionItems_def provideChatSessionItems_resume_def
      provideChatSessionItems_loop_eq emit_def Let_def)

subsection \<open>The DTO of a session\<close>

lemma coalesce_filter: "coalesce xs = map the (filter (\<lambda>x. x \<noteq> None) xs)"
  by (induction xs rule: coalesce.induct) simp_all

lemma provideChatSessionContent_resume_dto:
  assumes "fst (provideChatSessionContent_resume from_part handle id' provider s w) = Inr dto"
  shows "dto =
     \<lparr>session_dto_id = number_to_string (sessionHandlePool w),
      hasActiveResponseCallback = (activeResponseCallback s \<noteq> None),
      hasRequestHandler = (requestHandler s \<noteq> None),
      session_dto_history = map (\<lambda>turn.
        case turn of
          ChatRequestTurn prompt \<Rightarrow> Request_item prompt
        | ChatResponseTurn2 response \<Rightarrow>
            Response_item (coalesce (map (\<lambda>r. from_part r (next_object w)) response)))
        (history s)\<rparr>"
  using assms
  by (auto simp add: provideChatSessionContent_resume_def new_DisposableStore_def emit_def
      new_CancellationTokenSource_def DisposableStore_add_call_def Let_def
      split: option.splits sum.splits)

lemma provideChatSessionContent_resume_returns:
  assumes "\<forall>callback. activeResponseCallback s = Some callback \<longrightarrow>
      (\<exists>u. callback (stream (new_ExtHostChatSession s (content_extension provider)
           \<lparr>req_sessionId = id' @ ''.'' @ number_to_string (sessionHandlePool w),
            req_requestId = ''ongoing'', req_agentId = id', req_message = [],
            req_variables = [], req_location = Panel, req_userSelectedModelId = None\<rparr>
           \<lparr>proxy_handle = handle, proxy_id = id'\<rparr> (next_object w)))
         (Token_of (Suc (next_object w))) = Inr u)"
  shows "\<exists>dto. fst (provideChatSessionContent_resume from_part handle id' provider s w) = Inr dto"
  using assms
  by (auto simp add: provideChatSessionContent_resume_def new_DisposableStore_def emit_def
      new_CancellationTokenSource_def DisposableStore_add_call_def Let_def
      activeResponseStream_def
      split: option.splits sum.splits)

subsection \<open>Tokens and per-session objects\<close>

lemma provideChatSessionContent_resume_trace:
  "trace (snd (provideChatSessionContent_resume from_part handle id' provider s w)) =
     trace w @
       [New_DisposableStore (next_object w),
        New_CancellationTokenSource (Suc (next_object w)),
        DisposableStore_add (next_object w) (Suc (next_object w))] @
       (case activeResponseCallback s of
          None \<Rightarrow> []
        | Some callback \<Rightarrow>
            [Call_activeResponseCallback s
               (stream (new_ExtHostChatSession s (content_extension provider)
                  \<lparr>req_sessionId = id' @ ''.'' @ number_to_string (sessionHandlePool w),
                   req_requestId = ''ongoing'', req_agentId = id', req_message = [],
                   req_variables = [], req_location = Panel, req_userSelectedModelId = None\<rparr>
                  \<lparr>proxy_handle = handle, proxy_id = id'\<rparr> (next_object w)))
               (Token_of (Suc (next_object w)))])"
  by (simp add: provideChatSessionContent_resume_def new_DisposableStore_def emit_def
      new_CancellationTokenSource_def DisposableStore_add_call_def Let_def
      activeResponseStream_def split: option.split sum.split)

lemma provideChatSessionContent_resume_result_emit:
  "fst (provideChatSessionContent_resume from_part handle id' provider s (emit e w)) =
     fst (provideChatSessionContent_resume from_part handle id' provider s w)"
  by (simp add: provideChatSessionContent_resume_def new_DisposableStore_def emit_def
      new_CancellationTokenSource_def DisposableStore_add_call_def Let_def
      split: option.split sum.split)

lemma provideChatSessionItems_resume_result:
  "fst (provideChatSessionItems_resume sessions w) =
     fst (provideChatSessionItems_resume sessions w')"
  by (simp add: provideChatSessionItems_resume_def provideChatSessionItems_loop_eq
      split: option.split)

lemma fresh_objects:
  assumes "invariant w"
  shows "\<forall>k e. extHostChatSessions w k = Some e \<longrightarrow>
      session_objects e \<inter> {next_object w, Suc (next_object w)} = {}"
    and "\<forall>h e. chatSessionItemProviders w h = Some e \<longrightarrow>
      item_disposable e \<notin> {next_object w, Suc (next_object w)}"
    and "\<forall>h e. chatSessionContentProviders w h = Some e \<longrightarrow>
      content_disposable e \<notin> {next_object w, Suc (next_object w)}"
proof -
  have allocated: "objects_allocated w"
    using assms by (simp add: invariant_def)
  show "\<forall>k e. extHostChatSessions w k = Some e \<longrightarrow>
      session_objects e \<inter> {next_object w, Suc (next_object w)} = {}"
  proof (intro allI impI)
    fix k e
    assume "extHostChatSessions w k = Some e"
    then have "\<forall>x \<in> session_objects e. x < next_object w"
      using allocated unfolding objects_allocated_def by blast
    then show "session_objects e \<inter> {next_object w, Suc (next_object w)} = {}"
      by auto
  qed
  show "\<forall>h e. chatSessionItemProviders w h = Some e \<longrightarrow>
      item_disposable e \<notin> {next_object w, Suc (next_object w)}"
  proof (intro allI impI)
    fix h e
    assume "chatSessionItemProviders w h = Some e"
    then have "item_disposable e < next_object w"
      using allocated unfolding objects_allocated_def by blast
    then show "item_disposable e \<notin> {next_object w, Suc (next_object w)}"
      by auto
  qed
  show "\<forall>h e. chatSessionContentProviders w h = Some e \<longrightarrow>
      content_disposable e \<notin> {next_object w, Suc (next_object w)}"
  proof (intro allI impI)
    fix h e
    assume "chatSessionContentProviders w h = Some e"
    then have "content_disposable e < next_object w"
      using allocated unfolding objects_allocated_def by blast
    then show "content_disposable e \<notin> {next_object w, Suc (next_object w)}"
      by auto
  qed
qed

subsection \<open>The small run, step by step\<close>

lemma number_0: "number_to_string 0 = ''0''"
  by code_simp

lemma number_1: "number_to_string 1 = ''1''"
  by code_simp

lemma world_1_eq:
  "world_1 =
     \<lparr>chatSessionItemProviders =
        [0 \<mapsto> \<lparr>item_provider = example_item_provider, item_extension = ''ext'',
                item_disposable = 0\<rparr>],
      chatSessionContentProviders = Map.empty,
      nextChatSessionItemProviderHandle = 1, nextChatSessionContentProviderHandle = 0,
      sessionMap = Map.empty, sessionHandlePool = 0, extHostChatSessions = Map.empty,
      next_object = 2,
      trace = [New_DisposableStore 0, Proxy (Proxy_registerChatSessionItemProvider 0 ''type''),
        Subscribe 0 ''type'' 1, DisposableStore_add 0 1]\<rparr>"
  by (simp add: world_1_def registerChatSessionItemProvider_def initial_world_def
      new_DisposableStore_def emit_def subscribe_def DisposableStore_add_call_def
      example_item_provider_def)

lemma world_2_eq:
  "world_2 =
     \<lparr>chatSessionItemProviders =
        [0 \<mapsto> \<lparr>item_provider = example_item_provider, item_extension = ''ext'',
                item_disposable = 0\<rparr>],
      chatSessionContentProviders =
        [0 \<mapsto> \<lparr>content_provider = example_content_provider, content_extension = ''ext'',
                content_disposable = 2\<rparr>],
      nextChatSessionItemProviderHandle = 1, nextChatSessionContentProviderHandle = 1,
      sessionMap = Map.empty, sessionHandlePool = 0, extHostChatSessions = Map.empty,
      next_object = 3,
      trace = [New_DisposableStore 0, Proxy (Proxy_registerChatSessionItemProvider 0 ''type''),
        Subscribe 0 ''type'' 1, DisposableStore_add 0 1, New_DisposableStore 2,
        Proxy (Proxy_registerChatSessionContentProvider 0 ''type'')]\<rparr>"
  by (simp add: world_2_def world_1_eq registerChatSessionContentProvider_def
      new_DisposableStore_def emit_def)

lemma world_3_eq:
  "world_3 =
     world_2\<lparr>sessionHandlePool := 1,
       extHostChatSessions :=
         [''0_s1'' \<mapsto> \<lparr>sessionObj = new_ExtHostChatSession example_session ''ext''
             \<lparr>req_sessionId = ''s1.0'', req_requestId = ''ongoing'', req_agentId = ''s1'',
              req_message = [], req_variables = [], req_location = Panel,
              req_userSelectedModelId = None\<rparr>
             \<lparr>proxy_handle = 0, proxy_id = ''s1''\<rparr> 3,
           disposeCts = 4\<rparr>],
       next_object := 5,
       trace := trace world_2 @
         [Call_provideChatSessionContent example_content_provider ''s1'' (CancellationToken 1),
          New_DisposableStore 3, New_CancellationTokenSource 4, DisposableStore_add 3 4,
          Call_activeResponseCallback example_session
            (stream (new_ExtHostChatSession example_session ''ext''
             \<lparr>req_sessionId = ''s1.0'', req_requestId = ''ongoing'', req_agentId = ''s1'',
              req_message = [], req_variables = [], req_location = Panel,
              req_userSelectedModelId = None\<rparr>
             \<lparr>proxy_handle = 0, proxy_id = ''s1''\<rparr> 3))
            (Token_of 4)]\<rparr>"
  by (simp add: world_3_def world_2_eq dollar_provideChatSessionContent_def
      provideChatSessionContent_resume_def new_DisposableStore_def
      new_CancellationTokenSource_def DisposableStore_add_call_def emit_def number_0
      activeResponseStream_def example_content_provider_def example_session_def Let_def)

lemma world_2_fields:
  "chatSessionItemProviders world_2 =
     [0 \<mapsto> \<lparr>item_provider = example_item_provider, item_extension = ''ext'',
             item_disposable = 0\<rparr>]"
  "chatSessionContentProviders world_2 =
     [0 \<mapsto> \<lparr>content_provider = example_content_provider, content_extension = ''ext'',
             content_disposable = 2\<rparr>]"
  "nextChatSessionItemProviderHandle world_2 = 1"
  "nextChatSessionContentProviderHandle world_2 = 1"
  "sessionMap world_2 = Map.empty"
  "sessionHandlePool world_2 = 0"
  "extHostChatSessions world_2 = Map.empty"
  "next_object world_2 = 3"
  by (simp_all add: world_2_eq)

lemma world_3_fields:
  "chatSessionItemProviders world_3 = chatSessionItemProviders world_2"
  "chatSessionContentProviders world_3 = chatSessionContentProviders world_2"
  "nextChatSessionItemProviderHandle world_3 = 1"
  "nextChatSessionContentProviderHandle world_3 = 1"
  "sessionMap world_3 = Map.empty"
  "sessionHandlePool world_3 = 1"
  "extHostChatSessions world_3 =
     [''0_s1'' \<mapsto> \<lparr>sessionObj = new_ExtHostChatSession example_session ''ext''
         \<lparr>req_sessionId = ''s1.0'', req_requestId = ''ongoing'', req_agentId = ''s1'',
          req_message = [], req_variables = [], req_location = Panel,
          req_userSelectedModelId = None\<rparr>
         \<lparr>proxy_handle = 0, proxy_id = ''s1''\<rparr> 3,
       disposeCts = 4\<rparr>]"
  "next_object world_3 = 5"
  by (simp_all add: world_3_eq world_2_fields)

lemma reachable_initial_world: "reachable initial_world"
  by (simp add: reachable_def)

lemma reachable_step: "reachable w \<Longrightarrow> step w w' \<Longrightarrow> reachable w'"
  unfolding reachable_def by (rule rtranclp.rtrancl_into_rtrancl)

lemma reachable_world_1: "reachable world_1"
  unfolding world_1_def by (rule reachable_step [OF reachable_initial_world step.register_item])

lemma reachable_world_2: "reachable world_2"
  unfolding world_2_def by (rule reachable_step [OF reachable_world_1 step.register_content])

lemma reachable_world_3: "reachable world_3"
  unfolding world_3_def by (rule reachable_step [OF reachable_world_2 step.provide_content])

lemma reachable_world_4: "reachable world_4"
  unfolding world_4_def by (rule reachable_step [OF reachable_world_3 step.provide_content])

lemma world_4_sessions:
  "extHostChatSessions world_4 =
     [''0_s1'' \<mapsto> \<lparr>sessionObj = new_ExtHostChatSession example_session ''ext''
         \<lparr>req_sessionId = ''s1.0'', req_requestId = ''ongoing'', req_agentId = ''s1'',
          req_message = [], req_variables = [], req_location = Panel,
          req_userSelectedModelId = None\<rparr>
         \<lparr>proxy_handle = 0, proxy_id = ''s1''\<rparr> 3,
       disposeCts = 4\<rparr>,
      ''0_s2'' \<mapsto> \<lparr>sessionObj = new_ExtHostChatSession example_session ''ext''
         \<lparr>req_sessionId = ''s2.1'', req_requestId = ''ongoing'', req_agentId = ''s2'',
          req_message = [], req_variables = [], req_location = Panel,
          req_userSelectedModelId = None\<rparr>
         \<lparr>proxy_handle = 0, proxy_id = ''s2''\<rparr> 5,
       disposeCts = 6\<rparr>]"
  by (simp add: world_4_def dollar_provideChatSessionContent_def
      provideChatSessionContent_resume_sessions world_3_fields world_2_fields
      example_content_provider_def number_0 number_1)

section \<open>The claims\<close>

text \<open>
  C1: request and response are correlated by a composite string key. A session created
  by \<^verbatim>\<open>$provideChatSessionContent(handle, id, token)\<close> is stored in the session map under
  the key \<^verbatim>\<open>handle + '_' + id\<close>, the other keys keeping their entries;
  \<^verbatim>\<open>$disposeChatSessionContent(handle, id)\<close> and
  \<^verbatim>\<open>$invokeChatSessionRequestHandler(handle, id, ...)\<close> work on the entry stored under
  that key: the first cancels the token source and disposes the store of that entry and
  removes that key only, the second calls the request handler of the session of that
  entry, and does nothing when there is no entry. No other pair of a handle and an id
  gives the same key.
\<close>

theorem sessions_correlated_by_composite_key:
  "(\<forall>provider s.
      chatSessionContentProviders w handle = Some provider
      \<and> provideChatSessionContent (content_provider provider) id' token = Inr s \<longrightarrow>
      (\<exists>entry.
         extHostChatSessions (snd (dollar_provideChatSessionContent from_part handle id' token w)) =
           (extHostChatSessions w)(number_to_string handle @ ''_'' @ id' \<mapsto> entry)
         \<and> session (sessionObj entry) = s
         \<and> extension (sessionObj entry) = content_extension provider))
   \<and> (\<forall>entry.
      extHostChatSessions w (number_to_string handle @ ''_'' @ id') = Some entry \<longrightarrow>
      trace (dollar_disposeChatSessionContent handle id' w) =
        trace w @ [CancellationTokenSource_cancel (disposeCts entry),
                   DisposableStore_dispose (sessionDisposables (sessionObj entry))]
      \<and> extHostChatSessions (dollar_disposeChatSessionContent handle id' w) =
        (extHostChatSessions w)(number_to_string handle @ ''_'' @ id' := None)
      \<and> (\<forall>handler model.
            requestHandler (session (sessionObj entry)) = Some handler
            \<and> getModelForRequest lm request (extension (sessionObj entry)) = Inr model \<longrightarrow>
            dollar_invokeChatSessionRequestHandler lm handle id' request h token' w =
              ((case handler \<lparr>cr_request = request, cr_model = model,
                              cr_extension = extension (sessionObj entry)\<rparr> h
                       (getActiveRequestStream (sessionObj entry) request) token' of
                  Inl e \<Rightarrow> Inl e | Inr u \<Rightarrow> Inr ()),
               w\<lparr>trace := trace w @ [Call_requestHandler (session (sessionObj entry))
                 \<lparr>cr_request = request, cr_model = model,
                  cr_extension = extension (sessionObj entry)\<rparr>
                 h (getActiveRequestStream (sessionObj entry) request) token']\<rparr>)))
   \<and> (extHostChatSessions w (number_to_string handle @ ''_'' @ id') = None \<longrightarrow>
        dollar_invokeChatSessionRequestHandler lm handle id' request h token' w = (Inr (), w))
   \<and> (\<forall>handle2 id2.
        number_to_string handle2 @ ''_'' @ id2 = number_to_string handle @ ''_'' @ id' \<longrightarrow>
        handle2 = handle \<and> id2 = id')"
proof (intro conjI allI impI)
  fix provider s
  assume found: "chatSessionContentProviders w handle = Some provider
      \<and> provideChatSessionContent (content_provider provider) id' token = Inr s"
  let ?entry = "\<lparr>sessionObj = new_ExtHostChatSession s (content_extension provider)
       \<lparr>req_sessionId = id' @ ''.'' @ number_to_string (sessionHandlePool w),
        req_requestId = ''ongoing'', req_agentId = id', req_message = [],
        req_variables = [], req_location = Panel, req_userSelectedModelId = None\<rparr>
       \<lparr>proxy_handle = handle, proxy_id = id'\<rparr> (next_object w),
     disposeCts = Suc (next_object w)\<rparr>"
  have "extHostChatSessions (snd (dollar_provideChatSessionContent from_part handle id' token w)) =
      (extHostChatSessions w)(number_to_string handle @ ''_'' @ id' \<mapsto> ?entry)"
    using found
    by (simp add: dollar_provideChatSessionContent_resumed
        provideChatSessionContent_resume_sessions)
  moreover have "session (sessionObj ?entry) = s"
    "extension (sessionObj ?entry) = content_extension provider"
    by (simp_all add: new_ExtHostChatSession_def)
  ultimately show "\<exists>entry.
      extHostChatSessions (snd (dollar_provideChatSessionContent from_part handle id' token w)) =
        (extHostChatSessions w)(number_to_string handle @ ''_'' @ id' \<mapsto> entry)
      \<and> session (sessionObj entry) = s
      \<and> extension (sessionObj entry) = content_extension provider"
    by blast
next
  fix entry
  assume "extHostChatSessions w (number_to_string handle @ ''_'' @ id') = Some entry"
  then show "trace (dollar_disposeChatSessionContent handle id' w) =
      trace w @ [CancellationTokenSource_cancel (disposeCts entry),
                 DisposableStore_dispose (sessionDisposables (sessionObj entry))]"
    by (simp add: dollar_disposeChatSessionContent_known)
next
  fix entry
  assume "extHostChatSessions w (number_to_string handle @ ''_'' @ id') = Some entry"
  then show "extHostChatSessions (dollar_disposeChatSessionContent handle id' w) =
      (extHostChatSessions w)(number_to_string handle @ ''_'' @ id' := None)"
    by (simp add: dollar_disposeChatSessionContent_known)
next
  fix entry handler model
  assume "extHostChatSessions w (number_to_string handle @ ''_'' @ id') = Some entry"
    and "requestHandler (session (sessionObj entry)) = Some handler
      \<and> getModelForRequest lm request (extension (sessionObj entry)) = Inr model"
  then show "dollar_invokeChatSessionRequestHandler lm handle id' request h token' w =
      ((case handler \<lparr>cr_request = request, cr_model = model,
                      cr_extension = extension (sessionObj entry)\<rparr> h
               (getActiveRequestStream (sessionObj entry) request) token' of
          Inl e \<Rightarrow> Inl e | Inr u \<Rightarrow> Inr ()),
       w\<lparr>trace := trace w @ [Call_requestHandler (session (sessionObj entry))
         \<lparr>cr_request = request, cr_model = model,
          cr_extension = extension (sessionObj entry)\<rparr>
         h (getActiveRequestStream (sessionObj entry) request) token']\<rparr>)"
    by (simp add: dollar_invokeChatSessionRequestHandler_handled emit_def)
next
  assume "extHostChatSessions w (number_to_string handle @ ''_'' @ id') = None"
  then show "dollar_invokeChatSessionRequestHandler lm handle id' request h token' w = (Inr (), w)"
    by (simp add: dollar_invokeChatSessionRequestHandler_def)
next
  fix handle2 id2
  assume "number_to_string handle2 @ ''_'' @ id2 = number_to_string handle @ ''_'' @ id'"
  then show "handle2 = handle" and "id2 = id'"
    using session_key_inj by blast+
qed

theorem sessions_correlated_by_composite_key_witness:
  "chatSessionContentProviders world_2 0 =
     Some \<lparr>content_provider = example_content_provider, content_extension = ''ext'',
           content_disposable = 2\<rparr>
   \<and> provideChatSessionContent example_content_provider ''s1'' (CancellationToken 1) =
     Inr example_session
   \<and> (\<exists>entry. extHostChatSessions world_3 = [''0_s1'' \<mapsto> entry]
        \<and> session (sessionObj entry) = example_session)
   \<and> trace (dollar_disposeChatSessionContent 0 ''s1'' world_3) =
     trace world_3 @ [CancellationTokenSource_cancel 4, DisposableStore_dispose 3]
   \<and> extHostChatSessions (dollar_disposeChatSessionContent 0 ''s1'' world_3) = Map.empty
   \<and> dollar_invokeChatSessionRequestHandler example_language_models 0 ''s1'' example_request
       [''earlier''] (CancellationToken 4) world_3 =
     (Inr (),
      world_3\<lparr>trace := trace world_3 @ [Call_requestHandler example_session
        \<lparr>cr_request = example_request, cr_model = ''default model'', cr_extension = ''ext''\<rparr>
        [''earlier'']
        \<lparr>stream_extension = ''ext'', stream_request = example_request,
         stream_proxy = \<lparr>proxy_handle = 0, proxy_id = ''s1''\<rparr>, stream_disposables = 3\<rparr>
        (CancellationToken 4)]\<rparr>)"
proof -
  let ?provider = "\<lparr>content_provider = example_content_provider, content_extension = ''ext'',
      content_disposable = 2\<rparr>"
  let ?entry = "\<lparr>sessionObj = new_ExtHostChatSession example_session ''ext''
         \<lparr>req_sessionId = ''s1.0'', req_requestId = ''ongoing'', req_agentId = ''s1'',
          req_message = [], req_variables = [], req_location = Panel,
          req_userSelectedModelId = None\<rparr>
         \<lparr>proxy_handle = 0, proxy_id = ''s1''\<rparr> 3,
       disposeCts = 4\<rparr>"
  have registered: "chatSessionContentProviders world_2 0 = Some ?provider"
    by (simp add: world_2_fields)
  have provided: "provideChatSessionContent (content_provider ?provider) ''s1''
      (CancellationToken 1) = Inr example_session"
    by (simp add: example_content_provider_def)
  have known: "extHostChatSessions world_3 (number_to_string 0 @ ''_'' @ ''s1'') = Some ?entry"
    by (simp add: world_3_fields number_0)
  have handler: "requestHandler (session (sessionObj ?entry)) =
      Some (\<lambda>request h stream' token. Inr ())"
    by (simp add: new_ExtHostChatSession_def example_session_def)
  have model: "getModelForRequest example_language_models example_request
      (extension (sessionObj ?entry)) = Inr ''default model''"
    by (simp add: getModelForRequest_def example_language_models_def example_request_def)
  note created = sessions_correlated_by_composite_key
    [where w = world_2 and handle = 0 and id' = "''s1''" and token = "CancellationToken 1"
       and from_part = example_from_part, THEN conjunct1, rule_format,
     OF conjI [OF registered provided]]
  note used = sessions_correlated_by_composite_key
    [where w = world_3 and handle = 0 and id' = "''s1''" and lm = example_language_models
       and request = example_request and h = "[''earlier'']"
       and token' = "CancellationToken 4", THEN conjunct2, THEN conjunct1, rule_format,
     OF known]
  have stored: "\<exists>entry. extHostChatSessions world_3 = [''0_s1'' \<mapsto> entry]
      \<and> session (sessionObj entry) = example_session"
    using created unfolding world_3_def by (auto simp add: world_2_fields number_0)
  have calls: "trace (dollar_disposeChatSessionContent 0 ''s1'' world_3) =
      trace world_3 @ [CancellationTokenSource_cancel 4, DisposableStore_dispose 3]"
    using used [THEN conjunct1] by (simp add: new_ExtHostChatSession_def)
  have removed: "extHostChatSessions (dollar_disposeChatSessionContent 0 ''s1'' world_3) =
      Map.empty"
    using used [THEN conjunct2, THEN conjunct1] by (simp add: world_3_fields number_0)
  have invoked: "dollar_invokeChatSessionRequestHandler example_language_models 0 ''s1''
      example_request [''earlier''] (CancellationToken 4) world_3 =
     (Inr (),
      world_3\<lparr>trace := trace world_3 @ [Call_requestHandler example_session
        \<lparr>cr_request = example_request, cr_model = ''default model'', cr_extension = ''ext''\<rparr>
        [''earlier'']
        \<lparr>stream_extension = ''ext'', stream_request = example_request,
         stream_proxy = \<lparr>proxy_handle = 0, proxy_id = ''s1''\<rparr>, stream_disposables = 3\<rparr>
        (CancellationToken 4)]\<rparr>)"
    using used [THEN conjunct2, THEN conjunct2, rule_format, OF conjI [OF handler model]]
    by (simp add: new_ExtHostChatSession_def getActiveRequestStream_def)
  show ?thesis
    using registered provided stored calls removed invoked by simp
qed

text \<open>
  C2: provider registrations are multiplexed by integer handle. Every call of
  \<^verbatim>\<open>registerChatSessionItemProvider\<close> (and of \<^verbatim>\<open>registerChatSessionContentProvider\<close>)
  gives the value of the counter of its kind as the handle and adds one to that counter,
  leaving the other counter alone. In a reachable world no registration is stored under
  that value, so the new entry replaces none and the other entries stay; and whatever
  happens afterwards, a later registration of the same kind gets a greater handle, so
  the handles of any two registrations of a kind differ. \<^verbatim>\<open>$provideChatSessionItems\<close>
  for a handle calls the provider stored under it, and no other.
\<close>

theorem provider_handles_multiplexed:
  assumes "reachable w"
  shows
    "(reg_handle (fst (registerChatSessionItemProvider ext ty p w)) =
        nextChatSessionItemProviderHandle w
      \<and> nextChatSessionItemProviderHandle (snd (registerChatSessionItemProvider ext ty p w)) =
        nextChatSessionItemProviderHandle w + 1
      \<and> nextChatSessionContentProviderHandle (snd (registerChatSessionItemProvider ext ty p w)) =
        nextChatSessionContentProviderHandle w
      \<and> chatSessionItemProviders w (nextChatSessionItemProviderHandle w) = None
      \<and> chatSessionItemProviders (snd (registerChatSessionItemProvider ext ty p w)) =
        (chatSessionItemProviders w)(nextChatSessionItemProviderHandle w \<mapsto>
          \<lparr>item_provider = p, item_extension = ext, item_disposable = next_object w\<rparr>)
      \<and> (\<forall>w' ext' ty' p'.
            rtranclp step (snd (registerChatSessionItemProvider ext ty p w)) w' \<longrightarrow>
            reg_handle (fst (registerChatSessionItemProvider ext ty p w))
              < reg_handle (fst (registerChatSessionItemProvider ext' ty' p' w'))))
     \<and> (reg_handle (fst (registerChatSessionContentProvider ext ty q w)) =
        nextChatSessionContentProviderHandle w
      \<and> nextChatSessionContentProviderHandle
          (snd (registerChatSessionContentProvider ext ty q w)) =
        nextChatSessionContentProviderHandle w + 1
      \<and> nextChatSessionItemProviderHandle (snd (registerChatSessionContentProvider ext ty q w)) =
        nextChatSessionItemProviderHandle w
      \<and> chatSessionContentProviders w (nextChatSessionContentProviderHandle w) = None
      \<and> chatSessionContentProviders (snd (registerChatSessionContentProvider ext ty q w)) =
        (chatSessionContentProviders w)(nextChatSessionContentProviderHandle w \<mapsto>
          \<lparr>content_provider = q, content_extension = ext, content_disposable = next_object w\<rparr>)
      \<and> (\<forall>w' ext' ty' q'.
            rtranclp step (snd (registerChatSessionContentProvider ext ty q w)) w' \<longrightarrow>
            reg_handle (fst (registerChatSessionContentProvider ext ty q w))
              < reg_handle (fst (registerChatSessionContentProvider ext' ty' q' w'))))
     \<and> (\<forall>handle entry token. chatSessionItemProviders w handle = Some entry \<longrightarrow>
          trace (snd (dollar_provideChatSessionItems handle token w)) =
            trace w @ [Call_provideChatSessionItems (item_provider entry) token])"
proof -
  have inv: "invariant w"
    using assms by (rule reachable_invariant)
  have items: "\<forall>w' ext' ty' p'.
      rtranclp step (snd (registerChatSessionItemProvider ext ty p w)) w' \<longrightarrow>
      reg_handle (fst (registerChatSessionItemProvider ext ty p w))
        < reg_handle (fst (registerChatSessionItemProvider ext' ty' p' w'))"
    using later_item_handle by blast
  have contents: "\<forall>w' ext' ty' q'.
      rtranclp step (snd (registerChatSessionContentProvider ext ty q w)) w' \<longrightarrow>
      reg_handle (fst (registerChatSessionContentProvider ext ty q w))
        < reg_handle (fst (registerChatSessionContentProvider ext' ty' q' w'))"
    using later_content_handle by blast
  have calls: "\<forall>handle entry token. chatSessionItemProviders w handle = Some entry \<longrightarrow>
      trace (snd (dollar_provideChatSessionItems handle token w)) =
        trace w @ [Call_provideChatSessionItems (item_provider entry) token]"
    using provideChatSessionItems_trace by blast
  show ?thesis
    using items contents calls unused_item_handle [OF inv] unused_content_handle [OF inv]
    by (simp only: registerChatSessionItemProvider_handle
        registerChatSessionContentProvider_handle registerChatSessionItemProvider_fields
        registerChatSessionContentProvider_fields simp_thms)
qed

theorem provider_handles_multiplexed_witness:
  "reachable world_2
   \<and> reg_handle (fst (registerChatSessionItemProvider ''ext'' ''other'' example_item_provider
        world_2)) = 1
   \<and> chatSessionItemProviders world_2 1 = None
   \<and> reg_handle (fst (registerChatSessionItemProvider ''ext'' ''other'' example_item_provider
        world_2))
      < reg_handle (fst (registerChatSessionItemProvider ''ext'' ''third'' example_item_provider
          (snd (registerChatSessionItemProvider ''ext'' ''other'' example_item_provider
             world_2))))
   \<and> reg_handle (fst (registerChatSessionContentProvider ''ext'' ''other''
        example_content_provider world_2)) = 1
   \<and> chatSessionContentProviders world_2 1 = None
   \<and> trace (snd (dollar_provideChatSessionItems 0 (CancellationToken 9) world_2)) =
       trace world_2 @ [Call_provideChatSessionItems example_item_provider (CancellationToken 9)]"
proof -
  note fact = provider_handles_multiplexed [OF reachable_world_2,
      where ext = "''ext''" and ty = "''other''" and p = example_item_provider
        and q = example_content_provider]
  have later: "reg_handle (fst (registerChatSessionItemProvider ''ext'' ''other''
        example_item_provider world_2))
      < reg_handle (fst (registerChatSessionItemProvider ''ext'' ''third'' example_item_provider
          (snd (registerChatSessionItemProvider ''ext'' ''other'' example_item_provider
             world_2))))"
    using fact by blast
  have calls: "trace (snd (dollar_provideChatSessionItems 0 (CancellationToken 9) world_2)) =
       trace world_2 @ [Call_provideChatSessionItems example_item_provider (CancellationToken 9)]"
    using fact by (simp add: world_2_fields)
  show ?thesis
    using fact later calls reachable_world_2 by (simp add: world_2_fields)
qed

text \<open>
  C3: disposables are released in the right order. For a known session,
  \<^verbatim>\<open>$disposeChatSessionContent\<close> first cancels the token source of the session, then
  disposes the store of the session, and finally removes the entry of the session from
  the map; after it returns, no entry for the key \<^verbatim>\<open>providerHandle + '_' + sessionId\<close>
  remains in the map. Whatever the two objects do when they are called: what the token
  source does on \<^verbatim>\<open>cancel()\<close> runs in the world of the start of the method with the call
  recorded, what the store does on \<^verbatim>\<open>dispose()\<close> runs in the world that the first has
  left with the second call recorded, and the world after the method is the world that
  the second has left with the key removed; so the key is in no case in the map when the
  method returns. A listener of the token and a disposable of the store that look at the
  map both find the key in it, and if they put the entry back into the map it is removed
  all the same. When the two objects do nothing to the world, the method makes the call
  of \<^verbatim>\<open>cancel\<close> and then the call of \<^verbatim>\<open>dispose\<close>, and leaves the map without the key.
\<close>

theorem disposeChatSessionContent_order:
  assumes "extHostChatSessions w (number_to_string providerHandle @ ''_'' @ sessionId) = Some entry"
  shows
    "disposeChatSessionContent_calling cancel dispose providerHandle sessionId w =
       (dispose (sessionDisposables (sessionObj entry))
          (DisposableStore_dispose_call (sessionDisposables (sessionObj entry))
            (cancel (disposeCts entry)
              (CancellationTokenSource_cancel_call (disposeCts entry) w))))
       \<lparr>extHostChatSessions :=
          (extHostChatSessions
            (dispose (sessionDisposables (sessionObj entry))
              (DisposableStore_dispose_call (sessionDisposables (sessionObj entry))
                (cancel (disposeCts entry)
                  (CancellationTokenSource_cancel_call (disposeCts entry) w)))))
          (number_to_string providerHandle @ ''_'' @ sessionId := None)\<rparr>
     \<and> extHostChatSessions
         (disposeChatSessionContent_calling cancel dispose providerHandle sessionId w)
         (number_to_string providerHandle @ ''_'' @ sessionId) = None
     \<and> trace (disposeChatSessionContent_calling
           (reports_session (number_to_string providerHandle @ ''_'' @ sessionId))
           (reports_session (number_to_string providerHandle @ ''_'' @ sessionId))
           providerHandle sessionId w) =
       trace w @ [CancellationTokenSource_cancel (disposeCts entry), Log_warn ''present'',
                  DisposableStore_dispose (sessionDisposables (sessionObj entry)),
                  Log_warn ''present'']
     \<and> extHostChatSessions (disposeChatSessionContent_calling
           (restores_session (number_to_string providerHandle @ ''_'' @ sessionId) entry)
           (restores_session (number_to_string providerHandle @ ''_'' @ sessionId) entry)
           providerHandle sessionId w) =
       (extHostChatSessions w)(number_to_string providerHandle @ ''_'' @ sessionId := None)
     \<and> dollar_disposeChatSessionContent providerHandle sessionId w =
       disposeChatSessionContent_calling (\<lambda>obj w'. w') (\<lambda>obj w'. w') providerHandle sessionId w
     \<and> trace (dollar_disposeChatSessionContent providerHandle sessionId w) =
       trace w @ [CancellationTokenSource_cancel (disposeCts entry),
                  DisposableStore_dispose (sessionDisposables (sessionObj entry))]
     \<and> extHostChatSessions (dollar_disposeChatSessionContent providerHandle sessionId w) =
       (extHostChatSessions w)(number_to_string providerHandle @ ''_'' @ sessionId := None)"
proof -
  note eq = disposeChatSessionContent_calling_known [OF assms]
  have general: "disposeChatSessionContent_calling cancel dispose providerHandle sessionId w =
       (dispose (sessionDisposables (sessionObj entry))
          (DisposableStore_dispose_call (sessionDisposables (sessionObj entry))
            (cancel (disposeCts entry)
              (CancellationTokenSource_cancel_call (disposeCts entry) w))))
       \<lparr>extHostChatSessions :=
          (extHostChatSessions
            (dispose (sessionDisposables (sessionObj entry))
              (DisposableStore_dispose_call (sessionDisposables (sessionObj entry))
                (cancel (disposeCts entry)
                  (CancellationTokenSource_cancel_call (disposeCts entry) w)))))
          (number_to_string providerHandle @ ''_'' @ sessionId := None)\<rparr>"
    by (rule eq)
  have removed: "extHostChatSessions
       (disposeChatSessionContent_calling cancel dispose providerHandle sessionId w)
       (number_to_string providerHandle @ ''_'' @ sessionId) = None"
    by (simp add: eq)
  have seen: "trace (disposeChatSessionContent_calling
         (reports_session (number_to_string providerHandle @ ''_'' @ sessionId))
         (reports_session (number_to_string providerHandle @ ''_'' @ sessionId))
         providerHandle sessionId w) =
       trace w @ [CancellationTokenSource_cancel (disposeCts entry), Log_warn ''present'',
                  DisposableStore_dispose (sessionDisposables (sessionObj entry)),
                  Log_warn ''present'']"
    using assms
    by (simp add: eq reports_session_def CancellationTokenSource_cancel_call_def
        DisposableStore_dispose_call_def)
  have restored: "extHostChatSessions (disposeChatSessionContent_calling
         (restores_session (number_to_string providerHandle @ ''_'' @ sessionId) entry)
         (restores_session (number_to_string providerHandle @ ''_'' @ sessionId) entry)
         providerHandle sessionId w) =
       (extHostChatSessions w)(number_to_string providerHandle @ ''_'' @ sessionId := None)"
    by (simp add: eq restores_session_def CancellationTokenSource_cancel_call_def
        DisposableStore_dispose_call_def)
  have plain: "dollar_disposeChatSessionContent providerHandle sessionId w =
       disposeChatSessionContent_calling (\<lambda>obj w'. w') (\<lambda>obj w'. w') providerHandle sessionId w"
    by (rule dollar_disposeChatSessionContent_calling)
  have calls: "trace (dollar_disposeChatSessionContent providerHandle sessionId w) =
       trace w @ [CancellationTokenSource_cancel (disposeCts entry),
                  DisposableStore_dispose (sessionDisposables (sessionObj entry))]"
    using assms by (simp add: dollar_disposeChatSessionContent_known)
  have final: "extHostChatSessions (dollar_disposeChatSessionContent providerHandle sessionId w) =
       (extHostChatSessions w)(number_to_string providerHandle @ ''_'' @ sessionId := None)"
    using assms by (simp add: dollar_disposeChatSessionContent_known)
  show ?thesis
    by (intro conjI)
      (fact general, fact removed, fact seen, fact restored, fact plain, fact calls, fact final)
qed

theorem disposeChatSessionContent_order_witness:
  "extHostChatSessions world_3 (number_to_string 0 @ ''_'' @ ''s1'') =
     Some \<lparr>sessionObj = new_ExtHostChatSession example_session ''ext''
         \<lparr>req_sessionId = ''s1.0'', req_requestId = ''ongoing'', req_agentId = ''s1'',
          req_message = [], req_variables = [], req_location = Panel,
          req_userSelectedModelId = None\<rparr>
         \<lparr>proxy_handle = 0, proxy_id = ''s1''\<rparr> 3,
       disposeCts = 4\<rparr>
   \<and> trace (disposeChatSessionContent_calling (reports_session ''0_s1'')
         (reports_session ''0_s1'') 0 ''s1'' world_3) =
       trace world_3 @ [CancellationTokenSource_cancel 4, Log_warn ''present'',
                        DisposableStore_dispose 3, Log_warn ''present'']
   \<and> extHostChatSessions (disposeChatSessionContent_calling (reports_session ''0_s1'')
         (reports_session ''0_s1'') 0 ''s1'' world_3) ''0_s1'' = None
   \<and> trace (dollar_disposeChatSessionContent 0 ''s1'' world_3) =
       trace world_3 @ [CancellationTokenSource_cancel 4, DisposableStore_dispose 3]
   \<and> extHostChatSessions (dollar_disposeChatSessionContent 0 ''s1'' world_3) ''0_s1'' = None"
proof -
  have known: "extHostChatSessions world_3 (number_to_string 0 @ ''_'' @ ''s1'') =
     Some \<lparr>sessionObj = new_ExtHostChatSession example_session ''ext''
         \<lparr>req_sessionId = ''s1.0'', req_requestId = ''ongoing'', req_agentId = ''s1'',
          req_message = [], req_variables = [], req_location = Panel,
          req_userSelectedModelId = None\<rparr>
         \<lparr>proxy_handle = 0, proxy_id = ''s1''\<rparr> 3,
       disposeCts = 4\<rparr>"
    by (simp add: world_3_fields number_0)
  note fact = disposeChatSessionContent_order [OF known,
      where cancel = "reports_session ''0_s1''" and dispose = "reports_session ''0_s1''"]
  have seen: "trace (disposeChatSessionContent_calling (reports_session ''0_s1'')
         (reports_session ''0_s1'') 0 ''s1'' world_3) =
       trace world_3 @ [CancellationTokenSource_cancel 4, Log_warn ''present'',
                        DisposableStore_dispose 3, Log_warn ''present'']"
    using fact [THEN conjunct2, THEN conjunct2, THEN conjunct1]
    by (simp add: number_0 new_ExtHostChatSession_def)
  have gone: "extHostChatSessions (disposeChatSessionContent_calling (reports_session ''0_s1'')
         (reports_session ''0_s1'') 0 ''s1'' world_3) ''0_s1'' = None"
    using fact [THEN conjunct2, THEN conjunct1] by (simp add: number_0)
  have calls: "trace (dollar_disposeChatSessionContent 0 ''s1'' world_3) =
      trace world_3 @ [CancellationTokenSource_cancel 4, DisposableStore_dispose 3]"
    using fact [THEN conjunct2, THEN conjunct2, THEN conjunct2, THEN conjunct2, THEN conjunct2,
      THEN conjunct1]
    by (simp add: new_ExtHostChatSession_def)
  have removed: "extHostChatSessions (dollar_disposeChatSessionContent 0 ''s1'' world_3)
      ''0_s1'' = None"
    using fact [THEN conjunct2, THEN conjunct2, THEN conjunct2, THEN conjunct2, THEN conjunct2,
      THEN conjunct2]
    by (simp add: number_0)
  show ?thesis
    using known seen gone calls removed by simp
qed

text \<open>
  C4, as amended. \<^verbatim>\<open>$provideChatSessionItems\<close> maps the items of the provider to DTOs:
  the result has, in the order of the provider, one DTO for every item with a truthy id,
  with the id, the label and the icon path of the item, and none for an item with a
  falsy id. After the call the session map holds, under every truthy id that the
  provider returned, the last item that the provider returned with that id; so it holds
  every item with a truthy id when the ids are distinct. Keys that are the id of no
  returned item, and the empty key, keep what they had, and nothing else changes but
  the trace.
\<close>

theorem provideChatSessionItems_maps_items:
  assumes "chatSessionItemProviders w handle = Some entry"
    and "provideChatSessionItems (item_provider entry) token = Inr (Some items)"
  shows
    "(\<exists>response. fst (dollar_provideChatSessionItems handle token w) = Inr response
        \<and> map dto_id response = map item_id (filter (\<lambda>item. item_id item \<noteq> []) items)
        \<and> map dto_label response = map item_label (filter (\<lambda>item. item_id item \<noteq> []) items)
        \<and> map dto_iconPath response =
            map item_iconPath (filter (\<lambda>item. item_id item \<noteq> []) items))
     \<and> (\<forall>xs item ys.
          items = xs @ item # ys \<and> item_id item \<noteq> [] \<and> item_id item \<notin> item_id ` set ys \<longrightarrow>
          sessionMap (snd (dollar_provideChatSessionItems handle token w)) (item_id item) =
            Some item)
     \<and> (distinct (map item_id items) \<longrightarrow>
          (\<forall>item \<in> set items. item_id item \<noteq> [] \<longrightarrow>
             sessionMap (snd (dollar_provideChatSessionItems handle token w)) (item_id item) =
               Some item))
     \<and> (\<forall>k. k \<notin> item_id ` set items \<longrightarrow>
          sessionMap (snd (dollar_provideChatSessionItems handle token w)) k = sessionMap w k)
     \<and> sessionMap (snd (dollar_provideChatSessionItems handle token w)) [] = sessionMap w []
     \<and> snd (dollar_provideChatSessionItems handle token w) =
         w\<lparr>sessionMap := sessionMap (snd (dollar_provideChatSessionItems handle token w)),
           trace := trace w @ [Call_provideChatSessionItems (item_provider entry) token]\<rparr>"
proof -
  note eq = dollar_provideChatSessionItems_provided [OF assms]
  have stored: "sessionMap (snd (dollar_provideChatSessionItems handle token w)) =
      stored_items items (sessionMap w)"
    by (simp add: eq)
  have response: "\<exists>response. fst (dollar_provideChatSessionItems handle token w) = Inr response
      \<and> map dto_id response = map item_id (filter (\<lambda>item. item_id item \<noteq> []) items)
      \<and> map dto_label response = map item_label (filter (\<lambda>item. item_id item \<noteq> []) items)
      \<and> map dto_iconPath response =
          map item_iconPath (filter (\<lambda>item. item_id item \<noteq> []) items)"
    by (simp add: eq comp_def)
  have last: "\<forall>xs item ys.
      items = xs @ item # ys \<and> item_id item \<noteq> [] \<and> item_id item \<notin> item_id ` set ys \<longrightarrow>
      sessionMap (snd (dollar_provideChatSessionItems handle token w)) (item_id item) =
        Some item"
    unfolding stored using stored_items_last by blast
  have all: "distinct (map item_id items) \<longrightarrow>
      (\<forall>item \<in> set items. item_id item \<noteq> [] \<longrightarrow>
         sessionMap (snd (dollar_provideChatSessionItems handle token w)) (item_id item) =
           Some item)"
  proof (intro impI ballI)
    fix item
    assume d: "distinct (map item_id items)" and i: "item \<in> set items"
      and t: "item_id item \<noteq> []"
    obtain xs ys where split: "items = xs @ item # ys"
      using i by (meson split_list)
    then have "item_id item \<notin> item_id ` set ys"
      using d by auto
    then show "sessionMap (snd (dollar_provideChatSessionItems handle token w)) (item_id item) =
        Some item"
      unfolding stored split using t by (rule stored_items_last [rotated])
  qed
  have others: "\<forall>k. k \<notin> item_id ` set items \<longrightarrow>
      sessionMap (snd (dollar_provideChatSessionItems handle token w)) k = sessionMap w k"
    unfolding stored using stored_items_unset by blast
  have falsy: "sessionMap (snd (dollar_provideChatSessionItems handle token w)) [] =
      sessionMap w []"
    unfolding stored by (rule stored_items_falsy)
  have frame: "snd (dollar_provideChatSessionItems handle token w) =
      w\<lparr>sessionMap := sessionMap (snd (dollar_provideChatSessionItems handle token w)),
        trace := trace w @ [Call_provideChatSessionItems (item_provider entry) token]\<rparr>"
    by (simp add: eq)
  show ?thesis
    using response last all others falsy frame by blast
qed

theorem provideChatSessionItems_maps_items_witness:
  "chatSessionItemProviders world_2 0 =
     Some \<lparr>item_provider = example_item_provider, item_extension = ''ext'', item_disposable = 0\<rparr>
   \<and> provideChatSessionItems example_item_provider (CancellationToken 2) =
     Inr (Some example_items)
   \<and> (\<exists>response. fst (dollar_provideChatSessionItems 0 (CancellationToken 2) world_2) =
         Inr response
       \<and> map dto_id response = [''a'', ''a'', ''b'']
       \<and> map dto_label response = [''first'', ''second'', ''third'']
       \<and> map dto_iconPath response = [None, Some ''icon'', None])
   \<and> sessionMap (snd (dollar_provideChatSessionItems 0 (CancellationToken 2) world_2)) ''a'' =
     Some \<lparr>item_id = ''a'', item_label = ''second'', item_iconPath = Some ''icon''\<rparr>
   \<and> sessionMap (snd (dollar_provideChatSessionItems 0 (CancellationToken 2) world_2)) ''b'' =
     Some \<lparr>item_id = ''b'', item_label = ''third'', item_iconPath = None\<rparr>
   \<and> sessionMap (snd (dollar_provideChatSessionItems 0 (CancellationToken 2) world_2)) ''c'' =
     None
   \<and> sessionMap (snd (dollar_provideChatSessionItems 0 (CancellationToken 2) world_2)) [] =
     None"
proof -
  let ?entry = "\<lparr>item_provider = example_item_provider, item_extension = ''ext'',
      item_disposable = 0\<rparr>"
  let ?w = "snd (dollar_provideChatSessionItems 0 (CancellationToken 2) world_2)"
  have registered: "chatSessionItemProviders world_2 0 = Some ?entry"
    by (simp add: world_2_fields)
  have provided: "provideChatSessionItems (item_provider ?entry) (CancellationToken 2) =
      Inr (Some example_items)"
    by (simp add: example_item_provider_def)
  note fact = provideChatSessionItems_maps_items [OF registered provided]
  have response: "\<exists>response. fst (dollar_provideChatSessionItems 0 (CancellationToken 2) world_2) =
         Inr response
       \<and> map dto_id response = [''a'', ''a'', ''b'']
       \<and> map dto_label response = [''first'', ''second'', ''third'']
       \<and> map dto_iconPath response = [None, Some ''icon'', None]"
    using fact [THEN conjunct1] by (simp add: example_items_def)
  have second: "sessionMap ?w ''a'' =
      Some \<lparr>item_id = ''a'', item_label = ''second'', item_iconPath = Some ''icon''\<rparr>"
    using fact [THEN conjunct2, THEN conjunct1, rule_format,
      of "[\<lparr>item_id = ''a'', item_label = ''first'', item_iconPath = None\<rparr>,
           \<lparr>item_id = [], item_label = ''nameless'', item_iconPath = None\<rparr>]"
         "\<lparr>item_id = ''a'', item_label = ''second'', item_iconPath = Some ''icon''\<rparr>"
         "[\<lparr>item_id = ''b'', item_label = ''third'', item_iconPath = None\<rparr>]"]
    by (simp add: example_items_def)
  have third: "sessionMap ?w ''b'' =
      Some \<lparr>item_id = ''b'', item_label = ''third'', item_iconPath = None\<rparr>"
    using fact [THEN conjunct2, THEN conjunct1, rule_format,
      of "[\<lparr>item_id = ''a'', item_label = ''first'', item_iconPath = None\<rparr>,
           \<lparr>item_id = [], item_label = ''nameless'', item_iconPath = None\<rparr>,
           \<lparr>item_id = ''a'', item_label = ''second'', item_iconPath = Some ''icon''\<rparr>]"
         "\<lparr>item_id = ''b'', item_label = ''third'', item_iconPath = None\<rparr>"
         "[]"]
    by (simp add: example_items_def)
  have other: "sessionMap ?w ''c'' = None"
    using fact [THEN conjunct2, THEN conjunct2, THEN conjunct2, THEN conjunct1, rule_format,
      of "''c''"]
    by (simp add: example_items_def world_2_fields)
  have falsy: "sessionMap ?w [] = None"
    using fact [THEN conjunct2, THEN conjunct2, THEN conjunct2, THEN conjunct2, THEN conjunct1]
    by (simp add: world_2_fields)
  show ?thesis
    using registered provided response second third other falsy by simp
qed

text \<open>
  C4 as it is stated fails where the provider returns two items with the same id: the
  result has a DTO for each of them, but the second \<^verbatim>\<open>set\<close> replaces the first item
  in the session map, so that after the call the first item, whose id \<open>a\<close> is truthy, is
  not recorded under its id.
\<close>

theorem provideChatSessionItems_records_every_item_counterexample:
  "chatSessionItemProviders world_2 0 =
     Some \<lparr>item_provider = example_item_provider, item_extension = ''ext'', item_disposable = 0\<rparr>
   \<and> provideChatSessionItems example_item_provider (CancellationToken 2) =
     Inr (Some example_items)
   \<and> \<lparr>item_id = ''a'', item_label = ''first'', item_iconPath = None\<rparr> \<in> set example_items
   \<and> sessionMap (snd (dollar_provideChatSessionItems 0 (CancellationToken 2) world_2)) ''a'' =
     Some \<lparr>item_id = ''a'', item_label = ''second'', item_iconPath = Some ''icon''\<rparr>
   \<and> sessionMap (snd (dollar_provideChatSessionItems 0 (CancellationToken 2) world_2)) ''a'' \<noteq>
     Some \<lparr>item_id = ''a'', item_label = ''first'', item_iconPath = None\<rparr>"
  by (simp add: dollar_provideChatSessionItems_def provideChatSessionItems_resume_def
      world_2_fields example_item_provider_def example_items_def emit_def Let_def)

text \<open>
  C5: \<^verbatim>\<open>$provideChatSessionContent\<close> maps the session of the provider to a DTO. When
  the method returns a DTO, the provider registered under the handle has given a session
  for the id and the token; the history of the DTO has one element for every turn of the
  history of the session, in the same order: for a request turn the request with its
  prompt, for any other turn the response whose parts are the conversions of the
  response parts that are defined, in their order; and each of the two flags is true
  exactly when the session has the callback, or the handler. The method does return a
  DTO whenever the provider gives a session whose active response callback, if it has
  one, does not throw when called. The same holds for the second half of the method,
  whatever ran since the provider was called.
\<close>

theorem provideChatSessionContent_maps_session:
  "(\<forall>dto. fst (dollar_provideChatSessionContent from_part handle id' token w) = Inr dto \<longrightarrow>
      (\<exists>provider s.
         chatSessionContentProviders w handle = Some provider
         \<and> provideChatSessionContent (content_provider provider) id' token = Inr s
         \<and> length (session_dto_history dto) = length (history s)
         \<and> (\<forall>i < length (history s).
              session_dto_history dto ! i =
                (case history s ! i of
                   ChatRequestTurn prompt \<Rightarrow> Request_item prompt
                 | ChatResponseTurn2 response \<Rightarrow>
                     Response_item (map the (filter (\<lambda>x. x \<noteq> None)
                       (map (\<lambda>r. from_part r (next_object w)) response)))))
         \<and> hasActiveResponseCallback dto = (activeResponseCallback s \<noteq> None)
         \<and> hasRequestHandler dto = (requestHandler s \<noteq> None)))
   \<and> (\<forall>provider s.
         chatSessionContentProviders w handle = Some provider
         \<and> provideChatSessionContent (content_provider provider) id' token = Inr s
         \<and> (\<forall>callback. activeResponseCallback s = Some callback \<longrightarrow>
              (\<exists>u. callback
                 (stream (new_ExtHostChatSession s (content_extension provider)
                    \<lparr>req_sessionId = id' @ ''.'' @ number_to_string (sessionHandlePool w),
                     req_requestId = ''ongoing'', req_agentId = id', req_message = [],
                     req_variables = [], req_location = Panel,
                     req_userSelectedModelId = None\<rparr>
                    \<lparr>proxy_handle = handle, proxy_id = id'\<rparr> (next_object w)))
                 (Token_of (Suc (next_object w))) = Inr u)) \<longrightarrow>
         (\<exists>dto. fst (dollar_provideChatSessionContent from_part handle id' token w) = Inr dto))
   \<and> (\<forall>provider s dto.
         fst (provideChatSessionContent_resume from_part handle id' provider s w) = Inr dto \<longrightarrow>
         length (session_dto_history dto) = length (history s)
         \<and> (\<forall>i < length (history s).
              session_dto_history dto ! i =
                (case history s ! i of
                   ChatRequestTurn prompt \<Rightarrow> Request_item prompt
                 | ChatResponseTurn2 response \<Rightarrow>
                     Response_item (map the (filter (\<lambda>x. x \<noteq> None)
                       (map (\<lambda>r. from_part r (next_object w)) response)))))
         \<and> hasActiveResponseCallback dto = (activeResponseCallback s \<noteq> None)
         \<and> hasRequestHandler dto = (requestHandler s \<noteq> None))"
proof -
  have returned: "\<forall>dto. fst (dollar_provideChatSessionContent from_part handle id' token w) = Inr dto \<longrightarrow>
      (\<exists>provider s.
         chatSessionContentProviders w handle = Some provider
         \<and> provideChatSessionContent (content_provider provider) id' token = Inr s
         \<and> length (session_dto_history dto) = length (history s)
         \<and> (\<forall>i < length (history s).
              session_dto_history dto ! i =
                (case history s ! i of
                   ChatRequestTurn prompt \<Rightarrow> Request_item prompt
                 | ChatResponseTurn2 response \<Rightarrow>
                     Response_item (map the (filter (\<lambda>x. x \<noteq> None)
                       (map (\<lambda>r. from_part r (next_object w)) response)))))
         \<and> hasActiveResponseCallback dto = (activeResponseCallback s \<noteq> None)
         \<and> hasRequestHandler dto = (requestHandler s \<noteq> None))"
  proof (intro allI impI)
    fix dto
    assume returned: "fst (dollar_provideChatSessionContent from_part handle id' token w) = Inr dto"
    then obtain provider where registered: "chatSessionContentProviders w handle = Some provider"
      by (cases "chatSessionContentProviders w handle")
        (simp_all add: dollar_provideChatSessionContent_def)
    obtain s where provided:
      "provideChatSessionContent (content_provider provider) id' token = Inr s"
      using returned registered
      by (cases "provideChatSessionContent (content_provider provider) id' token")
        (simp_all add: dollar_provideChatSessionContent_def)
    have "fst (provideChatSessionContent_resume from_part handle id' provider s
        (emit (Call_provideChatSessionContent (content_provider provider) id' token) w)) = Inr dto"
      using returned
      by (simp add: dollar_provideChatSessionContent_resumed [OF registered provided])
    from provideChatSessionContent_resume_dto [OF this, unfolded emit_fields]
    have "length (session_dto_history dto) = length (history s)
        \<and> (\<forall>i < length (history s).
             session_dto_history dto ! i =
               (case history s ! i of
                  ChatRequestTurn prompt \<Rightarrow> Request_item prompt
                | ChatResponseTurn2 response \<Rightarrow>
                    Response_item (map the (filter (\<lambda>x. x \<noteq> None)
                      (map (\<lambda>r. from_part r (next_object w)) response)))))
        \<and> hasActiveResponseCallback dto = (activeResponseCallback s \<noteq> None)
        \<and> hasRequestHandler dto = (requestHandler s \<noteq> None)"
      by (simp add: coalesce_filter split: chat_turn.split)
    then show "\<exists>provider s.
        chatSessionContentProviders w handle = Some provider
        \<and> provideChatSessionContent (content_provider provider) id' token = Inr s
        \<and> length (session_dto_history dto) = length (history s)
        \<and> (\<forall>i < length (history s).
             session_dto_history dto ! i =
               (case history s ! i of
                  ChatRequestTurn prompt \<Rightarrow> Request_item prompt
                | ChatResponseTurn2 response \<Rightarrow>
                    Response_item (map the (filter (\<lambda>x. x \<noteq> None)
                      (map (\<lambda>r. from_part r (next_object w)) response)))))
        \<and> hasActiveResponseCallback dto = (activeResponseCallback s \<noteq> None)
        \<and> hasRequestHandler dto = (requestHandler s \<noteq> None)"
      using registered provided by blast
  qed
  have returns: "\<forall>provider s.
         chatSessionContentProviders w handle = Some provider
         \<and> provideChatSessionContent (content_provider provider) id' token = Inr s
         \<and> (\<forall>callback. activeResponseCallback s = Some callback \<longrightarrow>
              (\<exists>u. callback
                 (stream (new_ExtHostChatSession s (content_extension provider)
                    \<lparr>req_sessionId = id' @ ''.'' @ number_to_string (sessionHandlePool w),
                     req_requestId = ''ongoing'', req_agentId = id', req_message = [],
                     req_variables = [], req_location = Panel,
                     req_userSelectedModelId = None\<rparr>
                    \<lparr>proxy_handle = handle, proxy_id = id'\<rparr> (next_object w)))
                 (Token_of (Suc (next_object w))) = Inr u)) \<longrightarrow>
         (\<exists>dto. fst (dollar_provideChatSessionContent from_part handle id' token w) = Inr dto)"
  proof (intro allI impI)
    fix provider s
    assume given: "chatSessionContentProviders w handle = Some provider
        \<and> provideChatSessionContent (content_provider provider) id' token = Inr s
        \<and> (\<forall>callback. activeResponseCallback s = Some callback \<longrightarrow>
             (\<exists>u. callback
                (stream (new_ExtHostChatSession s (content_extension provider)
                   \<lparr>req_sessionId = id' @ ''.'' @ number_to_string (sessionHandlePool w),
                    req_requestId = ''ongoing'', req_agentId = id', req_message = [],
                    req_variables = [], req_location = Panel,
                    req_userSelectedModelId = None\<rparr>
                   \<lparr>proxy_handle = handle, proxy_id = id'\<rparr> (next_object w)))
                (Token_of (Suc (next_object w))) = Inr u))"
    then have "\<exists>dto. fst (provideChatSessionContent_resume from_part handle id' provider s
        (emit (Call_provideChatSessionContent (content_provider provider) id' token) w)) = Inr dto"
      by (intro provideChatSessionContent_resume_returns) simp
    then show "\<exists>dto. fst (dollar_provideChatSessionContent from_part handle id' token w) = Inr dto"
      using given by (simp add: dollar_provideChatSessionContent_resumed)
  qed
  have resumed: "\<forall>provider s dto.
         fst (provideChatSessionContent_resume from_part handle id' provider s w) = Inr dto \<longrightarrow>
         length (session_dto_history dto) = length (history s)
         \<and> (\<forall>i < length (history s).
              session_dto_history dto ! i =
                (case history s ! i of
                   ChatRequestTurn prompt \<Rightarrow> Request_item prompt
                 | ChatResponseTurn2 response \<Rightarrow>
                     Response_item (map the (filter (\<lambda>x. x \<noteq> None)
                       (map (\<lambda>r. from_part r (next_object w)) response)))))
         \<and> hasActiveResponseCallback dto = (activeResponseCallback s \<noteq> None)
         \<and> hasRequestHandler dto = (requestHandler s \<noteq> None)"
  proof (intro allI impI)
    fix provider s dto
    assume "fst (provideChatSessionContent_resume from_part handle id' provider s w) = Inr dto"
    from provideChatSessionContent_resume_dto [OF this]
    show "length (session_dto_history dto) = length (history s)
        \<and> (\<forall>i < length (history s).
             session_dto_history dto ! i =
               (case history s ! i of
                  ChatRequestTurn prompt \<Rightarrow> Request_item prompt
                | ChatResponseTurn2 response \<Rightarrow>
                    Response_item (map the (filter (\<lambda>x. x \<noteq> None)
                      (map (\<lambda>r. from_part r (next_object w)) response)))))
        \<and> hasActiveResponseCallback dto = (activeResponseCallback s \<noteq> None)
        \<and> hasRequestHandler dto = (requestHandler s \<noteq> None)"
      by (simp add: coalesce_filter split: chat_turn.split)
  qed
  show ?thesis
    by (intro conjI) (fact returned, fact returns, fact resumed)
qed

theorem provideChatSessionContent_maps_session_witness:
  "fst (dollar_provideChatSessionContent example_from_part 0 ''s1'' (CancellationToken 1) world_2) =
     Inr example_dto
   \<and> history example_session =
     [ChatRequestTurn ''hello'', ChatResponseTurn2 [''text'', ''unknown'', ''more'']]
   \<and> length (session_dto_history example_dto) = 2
   \<and> session_dto_history example_dto ! 0 = Request_item ''hello''
   \<and> session_dto_history example_dto ! 1 = Response_item [''dto text'', ''dto more'']
   \<and> hasActiveResponseCallback example_dto = (activeResponseCallback example_session \<noteq> None)
   \<and> hasRequestHandler example_dto = (requestHandler example_session \<noteq> None)"
proof -
  have returned: "fst (dollar_provideChatSessionContent example_from_part 0 ''s1''
      (CancellationToken 1) world_2) = Inr example_dto"
    by (simp add: dollar_provideChatSessionContent_def provideChatSessionContent_resume_def
        world_2_fields new_DisposableStore_def new_CancellationTokenSource_def
        DisposableStore_add_call_def emit_def Let_def number_0 example_content_provider_def
        example_session_def example_from_part_def example_dto_def)
  from provideChatSessionContent_maps_session [THEN conjunct1, rule_format, OF returned]
  obtain provider s where registered: "chatSessionContentProviders world_2 0 = Some provider"
    and provided: "provideChatSessionContent (content_provider provider) ''s1''
      (CancellationToken 1) = Inr s"
    and length: "length (session_dto_history example_dto) = length (history s)"
    and turns: "\<forall>i < length (history s).
      session_dto_history example_dto ! i =
        (case history s ! i of
           ChatRequestTurn prompt \<Rightarrow> Request_item prompt
         | ChatResponseTurn2 response \<Rightarrow>
             Response_item (map the (filter (\<lambda>x. x \<noteq> None)
               (map (\<lambda>r. example_from_part r (next_object world_2)) response))))"
    and callback: "hasActiveResponseCallback example_dto = (activeResponseCallback s \<noteq> None)"
    and handler: "hasRequestHandler example_dto = (requestHandler s \<noteq> None)"
    by blast
  have "provider = \<lparr>content_provider = example_content_provider, content_extension = ''ext'',
      content_disposable = 2\<rparr>"
    using registered by (simp add: world_2_fields)
  then have s: "s = example_session"
    using provided by (simp add: example_content_provider_def)
  have h: "history example_session =
      [ChatRequestTurn ''hello'', ChatResponseTurn2 [''text'', ''unknown'', ''more'']]"
    by (simp add: example_session_def)
  have first: "session_dto_history example_dto ! 0 = Request_item ''hello''"
    using turns [rule_format, of 0] by (simp add: s h)
  have second: "session_dto_history example_dto ! 1 = Response_item [''dto text'', ''dto more'']"
    using turns [rule_format, of 1] by (simp add: s h example_from_part_def)
  show ?thesis
    using returned h length first second callback handler by (simp add: s)
qed

text \<open>
  C6: cancellation tokens are forwarded. When a provider is registered under the handle,
  \<^verbatim>\<open>$provideChatSessionItems(handle, token)\<close> makes one call, the call of
  \<^verbatim>\<open>provideChatSessionItems\<close> of that provider with the token it was given, and its
  result is made from what the provider answers for that token;
  \<^verbatim>\<open>$provideChatSessionContent(handle, id, token)\<close> first calls
  \<^verbatim>\<open>provideChatSessionContent\<close> of that provider with the id and the token it was
  given, calls no provider after that, and its result is made from what the provider
  answers for that id and that token.
\<close>

theorem cancellation_tokens_forwarded:
  "(\<forall>entry. chatSessionItemProviders w handle = Some entry \<longrightarrow>
      trace (snd (dollar_provideChatSessionItems handle token w)) =
        trace w @ [Call_provideChatSessionItems (item_provider entry) token]
      \<and> fst (dollar_provideChatSessionItems handle token w) =
        (case provideChatSessionItems (item_provider entry) token of
           Inl e \<Rightarrow> Inl e
         | Inr sessions \<Rightarrow> Inr (fst (provideChatSessionItems_resume sessions w))))
   \<and> (\<forall>provider. chatSessionContentProviders w handle = Some provider \<longrightarrow>
      (\<exists>events.
         trace (snd (dollar_provideChatSessionContent from_part handle id' token w)) =
           trace w @ Call_provideChatSessionContent (content_provider provider) id' token # events
         \<and> (\<forall>p i t. Call_provideChatSessionContent p i t \<notin> set events)
         \<and> (\<forall>p t. Call_provideChatSessionItems p t \<notin> set events))
      \<and> fst (dollar_provideChatSessionContent from_part handle id' token w) =
        (case provideChatSessionContent (content_provider provider) id' token of
           Inl e \<Rightarrow> Inl e
         | Inr s \<Rightarrow> fst (provideChatSessionContent_resume from_part handle id' provider s w)))"
proof -
  have items: "\<forall>entry. chatSessionItemProviders w handle = Some entry \<longrightarrow>
      trace (snd (dollar_provideChatSessionItems handle token w)) =
        trace w @ [Call_provideChatSessionItems (item_provider entry) token]
      \<and> fst (dollar_provideChatSessionItems handle token w) =
        (case provideChatSessionItems (item_provider entry) token of
           Inl e \<Rightarrow> Inl e
         | Inr sessions \<Rightarrow> Inr (fst (provideChatSessionItems_resume sessions w)))"
  proof (intro allI impI conjI)
    fix entry
    assume registered: "chatSessionItemProviders w handle = Some entry"
    then show "trace (snd (dollar_provideChatSessionItems handle token w)) =
        trace w @ [Call_provideChatSessionItems (item_provider entry) token]"
      by (rule provideChatSessionItems_trace)
    show "fst (dollar_provideChatSessionItems handle token w) =
        (case provideChatSessionItems (item_provider entry) token of
           Inl e \<Rightarrow> Inl e
         | Inr sessions \<Rightarrow> Inr (fst (provideChatSessionItems_resume sessions w)))"
      using registered
        provideChatSessionItems_resume_result
          [of _ "emit (Call_provideChatSessionItems (item_provider entry) token) w" w]
      by (simp add: dollar_provideChatSessionItems_def Let_def case_prod_beta split: sum.split)
  qed
  have content: "\<forall>provider. chatSessionContentProviders w handle = Some provider \<longrightarrow>
      (\<exists>events.
         trace (snd (dollar_provideChatSessionContent from_part handle id' token w)) =
           trace w @ Call_provideChatSessionContent (content_provider provider) id' token # events
         \<and> (\<forall>p i t. Call_provideChatSessionContent p i t \<notin> set events)
         \<and> (\<forall>p t. Call_provideChatSessionItems p t \<notin> set events))
      \<and> fst (dollar_provideChatSessionContent from_part handle id' token w) =
        (case provideChatSessionContent (content_provider provider) id' token of
           Inl e \<Rightarrow> Inl e
         | Inr s \<Rightarrow> fst (provideChatSessionContent_resume from_part handle id' provider s w))"
  proof (intro allI impI conjI)
    fix provider
    assume registered: "chatSessionContentProviders w handle = Some provider"
    show "\<exists>events.
        trace (snd (dollar_provideChatSessionContent from_part handle id' token w)) =
          trace w @ Call_provideChatSessionContent (content_provider provider) id' token # events
        \<and> (\<forall>p i t. Call_provideChatSessionContent p i t \<notin> set events)
        \<and> (\<forall>p t. Call_provideChatSessionItems p t \<notin> set events)"
    proof (cases "provideChatSessionContent (content_provider provider) id' token")
      case (Inl e)
      then have "trace (snd (dollar_provideChatSessionContent from_part handle id' token w)) =
          trace w @ Call_provideChatSessionContent (content_provider provider) id' token # []"
        using registered by (simp add: dollar_provideChatSessionContent_def)
      then show ?thesis
        by (intro exI [of _ "[]"]) simp
    next
      case (Inr s)
      show ?thesis
        unfolding dollar_provideChatSessionContent_resumed [OF registered Inr]
          provideChatSessionContent_resume_trace
        by (cases "activeResponseCallback s") auto
    qed
    show "fst (dollar_provideChatSessionContent from_part handle id' token w) =
        (case provideChatSessionContent (content_provider provider) id' token of
           Inl e \<Rightarrow> Inl e
         | Inr s \<Rightarrow> fst (provideChatSessionContent_resume from_part handle id' provider s w))"
      using registered
      by (simp add: dollar_provideChatSessionContent_def
          provideChatSessionContent_resume_result_emit split: sum.split)
  qed
  show ?thesis
    by (intro conjI) (fact items, fact content)
qed

theorem cancellation_tokens_forwarded_witness:
  "chatSessionItemProviders world_2 0 =
     Some \<lparr>item_provider = example_item_provider, item_extension = ''ext'', item_disposable = 0\<rparr>
   \<and> trace (snd (dollar_provideChatSessionItems 0 (CancellationToken 7) world_2)) =
     trace world_2 @ [Call_provideChatSessionItems example_item_provider (CancellationToken 7)]
   \<and> chatSessionContentProviders world_2 0 =
     Some \<lparr>content_provider = example_content_provider, content_extension = ''ext'',
           content_disposable = 2\<rparr>
   \<and> (\<exists>events.
        trace (snd (dollar_provideChatSessionContent example_from_part 0 ''s1''
          (CancellationToken 8) world_2)) =
        trace world_2 @
          Call_provideChatSessionContent example_content_provider ''s1'' (CancellationToken 8)
          # events)"
proof -
  let ?entry = "\<lparr>item_provider = example_item_provider, item_extension = ''ext'',
      item_disposable = 0\<rparr>"
  let ?provider = "\<lparr>content_provider = example_content_provider, content_extension = ''ext'',
      content_disposable = 2\<rparr>"
  have items: "chatSessionItemProviders world_2 0 = Some ?entry"
    by (simp add: world_2_fields)
  have content: "chatSessionContentProviders world_2 0 = Some ?provider"
    by (simp add: world_2_fields)
  have item_call: "trace (snd (dollar_provideChatSessionItems 0 (CancellationToken 7) world_2)) =
      trace world_2 @ [Call_provideChatSessionItems example_item_provider (CancellationToken 7)]"
    using cancellation_tokens_forwarded
      [where w = world_2 and handle = 0 and token = "CancellationToken 7",
        THEN conjunct1, rule_format, OF items, THEN conjunct1]
    by simp
  have content_call: "\<exists>events.
      trace (snd (dollar_provideChatSessionContent example_from_part 0 ''s1''
        (CancellationToken 8) world_2)) =
      trace world_2 @
        Call_provideChatSessionContent example_content_provider ''s1'' (CancellationToken 8)
        # events"
    using cancellation_tokens_forwarded
      [where w = world_2 and handle = 0 and token = "CancellationToken 8"
         and from_part = example_from_part and id' = "''s1''",
        THEN conjunct2, rule_format, OF content, THEN conjunct1]
    by auto
  show ?thesis
    using items content item_call content_call by simp
qed

text \<open>
  C7: per-session disposable resources are tracked. Let the second half of
  \<^verbatim>\<open>$provideChatSessionContent\<close> run in a reachable world. It creates a store and then a
  token source, and adds the token source to the store, before it calls any callback;
  both objects are fresh: no entry of the session map and no registration holds either
  of them before the call. The entry that the call stores under the composite key holds
  this store (which is also the store of its stream) and this token source. In the world
  before the call, and so in the world after it, which is reachable too, the store of an
  entry is not its token source, and entries under different keys have no store or token
  source in common. When the method as a whole returns a DTO, it has run this second
  half for the session that the provider gave.
\<close>

theorem session_disposables_tracked:
  assumes "reachable w"
  shows
    "trace (snd (provideChatSessionContent_resume from_part handle id' provider s w)) =
       trace w @
         [New_DisposableStore (next_object w),
          New_CancellationTokenSource (Suc (next_object w)),
          DisposableStore_add (next_object w) (Suc (next_object w))] @
         (case activeResponseCallback s of
            None \<Rightarrow> []
          | Some callback \<Rightarrow>
              [Call_activeResponseCallback s
                 (stream (new_ExtHostChatSession s (content_extension provider)
                    \<lparr>req_sessionId = id' @ ''.'' @ number_to_string (sessionHandlePool w),
                     req_requestId = ''ongoing'', req_agentId = id', req_message = [],
                     req_variables = [], req_location = Panel,
                     req_userSelectedModelId = None\<rparr>
                    \<lparr>proxy_handle = handle, proxy_id = id'\<rparr> (next_object w)))
                 (Token_of (Suc (next_object w)))])
     \<and> (\<forall>k e. extHostChatSessions w k = Some e \<longrightarrow>
          session_objects e \<inter> {next_object w, Suc (next_object w)} = {})
     \<and> (\<forall>h e. chatSessionItemProviders w h = Some e \<longrightarrow>
          item_disposable e \<notin> {next_object w, Suc (next_object w)})
     \<and> (\<forall>h e. chatSessionContentProviders w h = Some e \<longrightarrow>
          content_disposable e \<notin> {next_object w, Suc (next_object w)})
     \<and> (\<exists>entry.
          extHostChatSessions (snd (provideChatSessionContent_resume from_part handle id'
            provider s w)) =
            (extHostChatSessions w)(number_to_string handle @ ''_'' @ id' \<mapsto> entry)
          \<and> sessionDisposables (sessionObj entry) = next_object w
          \<and> stream_disposables (stream (sessionObj entry)) = next_object w
          \<and> disposeCts entry = Suc (next_object w))
     \<and> (\<forall>k e. extHostChatSessions w k = Some e \<longrightarrow>
          sessionDisposables (sessionObj e) \<noteq> disposeCts e)
     \<and> (\<forall>k k' e e'. extHostChatSessions w k = Some e \<and> extHostChatSessions w k' = Some e'
          \<and> k \<noteq> k' \<longrightarrow> session_objects e \<inter> session_objects e' = {})
     \<and> reachable (snd (provideChatSessionContent_resume from_part handle id' provider s w))
     \<and> (\<forall>token dto.
          fst (dollar_provideChatSessionContent from_part handle id' token w) = Inr dto \<longrightarrow>
          (\<exists>found given.
             chatSessionContentProviders w handle = Some found
             \<and> provideChatSessionContent (content_provider found) id' token = Inr given
             \<and> dollar_provideChatSessionContent from_part handle id' token w =
                 provideChatSessionContent_resume from_part handle id' found given
                   (emit (Call_provideChatSessionContent (content_provider found) id' token) w)))"
proof -
  have inv: "invariant w"
    using assms by (rule reachable_invariant)
  have unshared: "sessions_unshared w"
    using inv by (simp add: invariant_def)
  let ?entry = "\<lparr>sessionObj = new_ExtHostChatSession s (content_extension provider)
       \<lparr>req_sessionId = id' @ ''.'' @ number_to_string (sessionHandlePool w),
        req_requestId = ''ongoing'', req_agentId = id', req_message = [],
        req_variables = [], req_location = Panel, req_userSelectedModelId = None\<rparr>
       \<lparr>proxy_handle = handle, proxy_id = id'\<rparr> (next_object w),
     disposeCts = Suc (next_object w)\<rparr>"
  have "extHostChatSessions (snd (provideChatSessionContent_resume from_part handle id'
        provider s w)) =
      (extHostChatSessions w)(number_to_string handle @ ''_'' @ id' \<mapsto> ?entry)
    \<and> sessionDisposables (sessionObj ?entry) = next_object w
    \<and> stream_disposables (stream (sessionObj ?entry)) = next_object w
    \<and> disposeCts ?entry = Suc (next_object w)"
    by (simp add: provideChatSessionContent_resume_sessions new_ExtHostChatSession_def)
  then have stored: "\<exists>entry.
      extHostChatSessions (snd (provideChatSessionContent_resume from_part handle id'
        provider s w)) =
        (extHostChatSessions w)(number_to_string handle @ ''_'' @ id' \<mapsto> entry)
      \<and> sessionDisposables (sessionObj entry) = next_object w
      \<and> stream_disposables (stream (sessionObj entry)) = next_object w
      \<and> disposeCts entry = Suc (next_object w)"
    by (rule exI)
  have own: "\<forall>k e. extHostChatSessions w k = Some e \<longrightarrow>
      sessionDisposables (sessionObj e) \<noteq> disposeCts e"
    using unshared unfolding sessions_unshared_def by blast
  have apart: "\<forall>k k' e e'. extHostChatSessions w k = Some e \<and> extHostChatSessions w k' = Some e'
      \<and> k \<noteq> k' \<longrightarrow> session_objects e \<inter> session_objects e' = {}"
    using unshared unfolding sessions_unshared_def by blast
  have after: "reachable (snd (provideChatSessionContent_resume from_part handle id' provider s w))"
    using assms step.provide_content_resume by (rule reachable_step)
  have whole: "\<forall>token dto.
      fst (dollar_provideChatSessionContent from_part handle id' token w) = Inr dto \<longrightarrow>
      (\<exists>found given.
         chatSessionContentProviders w handle = Some found
         \<and> provideChatSessionContent (content_provider found) id' token = Inr given
         \<and> dollar_provideChatSessionContent from_part handle id' token w =
             provideChatSessionContent_resume from_part handle id' found given
               (emit (Call_provideChatSessionContent (content_provider found) id' token) w))"
  proof (intro allI impI)
    fix token dto
    assume returned: "fst (dollar_provideChatSessionContent from_part handle id' token w) = Inr dto"
    then obtain found where registered: "chatSessionContentProviders w handle = Some found"
      by (cases "chatSessionContentProviders w handle")
        (simp_all add: dollar_provideChatSessionContent_def)
    obtain given where provided:
      "provideChatSessionContent (content_provider found) id' token = Inr given"
      using returned registered
      by (cases "provideChatSessionContent (content_provider found) id' token")
        (simp_all add: dollar_provideChatSessionContent_def)
    show "\<exists>found given.
        chatSessionContentProviders w handle = Some found
        \<and> provideChatSessionContent (content_provider found) id' token = Inr given
        \<and> dollar_provideChatSessionContent from_part handle id' token w =
            provideChatSessionContent_resume from_part handle id' found given
              (emit (Call_provideChatSessionContent (content_provider found) id' token) w)"
      using registered provided dollar_provideChatSessionContent_resumed [OF registered provided]
      by blast
  qed
  show ?thesis
    by (intro conjI)
      (rule provideChatSessionContent_resume_trace, fact fresh_objects(1) [OF inv],
        fact fresh_objects(2) [OF inv], fact fresh_objects(3) [OF inv], fact stored, fact own,
        fact apart, fact after, fact whole)
qed

theorem session_disposables_tracked_witness:
  "reachable world_2
   \<and> trace (snd (provideChatSessionContent_resume example_from_part 0 ''s1''
        \<lparr>content_provider = example_content_provider, content_extension = ''ext'',
         content_disposable = 2\<rparr> example_session world_2)) =
     trace world_2 @
       [New_DisposableStore 3, New_CancellationTokenSource 4, DisposableStore_add 3 4,
        Call_activeResponseCallback example_session
          \<lparr>stream_extension = ''ext'',
           stream_request = \<lparr>req_sessionId = ''s1.0'', req_requestId = ''ongoing'',
             req_agentId = ''s1'', req_message = [], req_variables = [], req_location = Panel,
             req_userSelectedModelId = None\<rparr>,
           stream_proxy = \<lparr>proxy_handle = 0, proxy_id = ''s1''\<rparr>, stream_disposables = 3\<rparr>
          (Token_of 4)]
   \<and> (\<exists>entry.
        extHostChatSessions (snd (provideChatSessionContent_resume example_from_part 0 ''s1''
          \<lparr>content_provider = example_content_provider, content_extension = ''ext'',
           content_disposable = 2\<rparr> example_session world_2)) = [''0_s1'' \<mapsto> entry]
        \<and> sessionDisposables (sessionObj entry) = 3
        \<and> disposeCts entry = 4)
   \<and> reachable world_4
   \<and> (\<exists>e e'. extHostChatSessions world_4 ''0_s1'' = Some e
        \<and> extHostChatSessions world_4 ''0_s2'' = Some e'
        \<and> session_objects e = {3, 4} \<and> session_objects e' = {5, 6}
        \<and> session_objects e \<inter> session_objects e' = {})"
proof -
  let ?provider = "\<lparr>content_provider = example_content_provider, content_extension = ''ext'',
      content_disposable = 2\<rparr>"
  let ?e = "\<lparr>sessionObj = new_ExtHostChatSession example_session ''ext''
         \<lparr>req_sessionId = ''s1.0'', req_requestId = ''ongoing'', req_agentId = ''s1'',
          req_message = [], req_variables = [], req_location = Panel,
          req_userSelectedModelId = None\<rparr>
         \<lparr>proxy_handle = 0, proxy_id = ''s1''\<rparr> 3,
       disposeCts = 4\<rparr>"
  let ?e' = "\<lparr>sessionObj = new_ExtHostChatSession example_session ''ext''
         \<lparr>req_sessionId = ''s2.1'', req_requestId = ''ongoing'', req_agentId = ''s2'',
          req_message = [], req_variables = [], req_location = Panel,
          req_userSelectedModelId = None\<rparr>
         \<lparr>proxy_handle = 0, proxy_id = ''s2''\<rparr> 5,
       disposeCts = 6\<rparr>"
  note created = session_disposables_tracked [OF reachable_world_2,
      where from_part = example_from_part and handle = 0 and id' = "''s1''"
        and provider = ?provider and s = example_session]
  note kept = session_disposables_tracked [OF reachable_world_4]
  have calls: "trace (snd (provideChatSessionContent_resume example_from_part 0 ''s1''
        ?provider example_session world_2)) =
     trace world_2 @
       [New_DisposableStore 3, New_CancellationTokenSource 4, DisposableStore_add 3 4,
        Call_activeResponseCallback example_session
          \<lparr>stream_extension = ''ext'',
           stream_request = \<lparr>req_sessionId = ''s1.0'', req_requestId = ''ongoing'',
             req_agentId = ''s1'', req_message = [], req_variables = [], req_location = Panel,
             req_userSelectedModelId = None\<rparr>,
           stream_proxy = \<lparr>proxy_handle = 0, proxy_id = ''s1''\<rparr>, stream_disposables = 3\<rparr>
          (Token_of 4)]"
    using created [THEN conjunct1]
    by (simp add: world_2_fields number_0 new_ExtHostChatSession_def example_session_def)
  have stored: "\<exists>entry.
        extHostChatSessions (snd (provideChatSessionContent_resume example_from_part 0 ''s1''
          ?provider example_session world_2)) = [''0_s1'' \<mapsto> entry]
        \<and> sessionDisposables (sessionObj entry) = 3
        \<and> disposeCts entry = 4"
    using created [THEN conjunct2, THEN conjunct2, THEN conjunct2, THEN conjunct2, THEN conjunct1]
    by (auto simp add: world_2_fields number_0)
  have first: "extHostChatSessions world_4 ''0_s1'' = Some ?e"
    and second: "extHostChatSessions world_4 ''0_s2'' = Some ?e'"
    by (simp_all add: world_4_sessions)
  have objects: "session_objects ?e = {3, 4}" "session_objects ?e' = {5, 6}"
    by (simp_all add: session_objects_def new_ExtHostChatSession_def)
  have "session_objects ?e \<inter> session_objects ?e' = {}"
    using kept [THEN conjunct2, THEN conjunct2, THEN conjunct2, THEN conjunct2, THEN conjunct2,
        THEN conjunct2, THEN conjunct1, rule_format, of "''0_s1''" ?e "''0_s2''" ?e']
      first second
    by simp
  then have apart: "\<exists>e e'. extHostChatSessions world_4 ''0_s1'' = Some e
        \<and> extHostChatSessions world_4 ''0_s2'' = Some e'
        \<and> session_objects e = {3, 4} \<and> session_objects e' = {5, 6}
        \<and> session_objects e \<inter> session_objects e' = {}"
    using first second objects by blast
  show ?thesis
    using reachable_world_2 reachable_world_4 calls stored apart by simp
qed

text \<open>
  C8: for every handle with no registered chat session item provider,
  \<^verbatim>\<open>$provideChatSessionItems(handle, token)\<close> returns the empty list without throwing and
  leaves all state unchanged. The world after the call is the world before it with one
  more call in the trace, the error that the method logs; no provider is called.
\<close>

theorem provideChatSessionItems_unknown_handle:
  assumes "chatSessionItemProviders w handle = None"
  shows "dollar_provideChatSessionItems handle token w =
     (Inr [], w\<lparr>trace := trace w @
        [Log_error (''No provider registered for handle '' @ number_to_string handle)]\<rparr>)"
  using assms by (simp add: dollar_provideChatSessionItems_def emit_def)

theorem provideChatSessionItems_unknown_handle_witness:
  "chatSessionItemProviders world_1 1 = None \<and>
   dollar_provideChatSessionItems 1 (CancellationToken 5) world_1 =
     (Inr [], world_1\<lparr>trace := trace world_1 @
        [Log_error ''No provider registered for handle 1'']\<rparr>)"
  using provideChatSessionItems_unknown_handle [of world_1 1 "CancellationToken 5"]
  by (simp add: world_1_eq number_1)

text \<open>
  C9: for every handle with no registered chat session content provider,
  \<^verbatim>\<open>$provideChatSessionContent(handle, id, token)\<close> throws an error and leaves all state
  unchanged, including the session map. The world after the call is the world before it,
  trace included.
\<close>

theorem provideChatSessionContent_unknown_handle:
  assumes "chatSessionContentProviders w handle = None"
  shows "dollar_provideChatSessionContent from_part handle id' token w =
     (Inl (Error (''No provider for handle '' @ number_to_string handle)), w)"
  using assms by (simp add: dollar_provideChatSessionContent_def)

theorem provideChatSessionContent_unknown_handle_witness:
  "chatSessionContentProviders world_1 0 = None \<and>
   dollar_provideChatSessionContent example_from_part 0 ''s1'' (CancellationToken 1) world_1 =
     (Inl (Error ''No provider for handle 0''), world_1)"
  using provideChatSessionContent_unknown_handle
    [of world_1 0 example_from_part "''s1''" "CancellationToken 1"]
  by (simp add: world_1_eq number_0)

text \<open>
  C10: for every pair of a provider handle and a session id whose composite key is not in
  the session map, \<^verbatim>\<open>$disposeChatSessionContent\<close> returns normally and leaves all state
  unchanged: no token source is cancelled, no disposable store is disposed, and the
  session map is unmodified. The world after the call is the world before it with one
  more call in the trace, the warning that the method logs.
\<close>

theorem disposeChatSessionContent_unknown_key:
  assumes "extHostChatSessions w (number_to_string providerHandle @ ''_'' @ sessionId) = None"
  shows "dollar_disposeChatSessionContent providerHandle sessionId w =
     w\<lparr>trace := trace w @
        [Log_warn (''No chat session found for ID: ''
           @ number_to_string providerHandle @ ''_'' @ sessionId)]\<rparr>"
  using assms by (simp add: dollar_disposeChatSessionContent_def emit_def)

theorem disposeChatSessionContent_unknown_key_witness:
  "extHostChatSessions world_3 (number_to_string 0 @ ''_'' @ ''s2'') = None \<and>
   dollar_disposeChatSessionContent 0 ''s2'' world_3 =
     world_3\<lparr>trace := trace world_3 @ [Log_warn ''No chat session found for ID: 0_s2'']\<rparr>"
  using disposeChatSessionContent_unknown_key [of world_3 0 "''s2''"]
  by (simp add: world_3_eq number_0)

end
